theory Spec2Isabelle
  imports Complex_Main
begin

section \<open>Unit conversion\<close>



subsection \<open>The conversion as JavaScript evaluates it\<close>

text \<open>
  A JavaScript \<open>number\<close> is an IEEE binary64 value, and every operation rounds its
  exact result to the nearest such value, ties to the even significand. A finite
  double is kept as the real number it denotes.

  \<open>rne\<close> rounds to the nearest integer, ties to even.
\<close>

definition rne :: "real \<Rightarrow> int" where
  "rne x =
     (let f = \<lfloor>x\<rfloor>; d = x - of_int f in
      if d < 1 / 2 then f
      else if 1 / 2 < d then f + 1
      else if even f then f
      else f + 1)"

text \<open>\<open>ilog2 n\<close> is the position of the leading bit of \<open>n\<close>.\<close>

fun ilog2 :: "nat \<Rightarrow> nat" where
  "ilog2 n = (if n < 2 then 0 else Suc (ilog2 (n div 2)))"

declare ilog2.simps [simp del]

text \<open>How often a magnitude below 1 is doubled until it reaches 1, at most \<open>k\<close> times.\<close>

fun doublings :: "nat \<Rightarrow> real \<Rightarrow> nat" where
  "doublings 0 x = 0"
| "doublings (Suc k) x = (if 1 \<le> x then 0 else Suc (doublings k (2 * x)))"

text \<open>
  The exponent \<open>e\<close> with \<open>2 ^ e \<le> |x| < 2 ^ (e + 1)\<close>, and \<open>-1022\<close> for zero and
  the subnormal magnitudes below \<open>2 ^ -1022\<close>, which share the spacing of the lowest
  binade.
\<close>

definition binade :: "real \<Rightarrow> int" where
  "binade x =
     (if 1 \<le> \<bar>x\<bar> then int (ilog2 (nat \<lfloor>\<bar>x\<bar>\<rfloor>))
      else - int (doublings 1022 \<bar>x\<bar>))"

text \<open>
  \<open>fl x\<close> is the double nearest to \<open>x\<close>: a multiple of \<open>2 ^ (e - 52)\<close> in the binade
  \<open>e\<close> of \<open>x\<close>. \<open>None\<close> is an infinity: the rounded magnitude reaches \<open>2 ^ 1024\<close>.
\<close>

definition fl :: "real \<Rightarrow> real option" where
  "fl x =
     (let e = binade x;
          y = of_int (rne (x * 2 powi (52 - e))) * 2 powi (e - 52)
      in if \<bar>y\<bar> < 2 ^ 1024 then Some y else None)"

text \<open>
  \<open>c * (9 / 5) + 32\<close> in doubles: the quotient, the product and the sum are each
  rounded. An infinite product gives an infinite sum.
\<close>

definition cToF_double :: "real \<Rightarrow> real option" where
  "cToF_double c =
     (case fl (9 / 5) of
        None \<Rightarrow> None
      | Some k \<Rightarrow>
          (case fl (c * k) of
             None \<Rightarrow> None
           | Some p \<Rightarrow> fl (p + 32)))"

section \<open>Data model\<close>

record rgb =
  r :: real
  g :: real
  b :: real

text \<open>The interface \<open>NightLightData\<close>.\<close>

record NightLightData =
  brightness :: real
  auto :: bool
  on :: bool
  off :: bool
  color :: rgb

text \<open>
  \<open>Partial<NightLightData>\<close>: every property may be absent. \<open>None\<close> is an absent
  property.
\<close>

record PartialNightLightData =
  p_brightness :: "real option"
  p_auto :: "bool option"
  p_on :: "bool option"
  p_off :: "bool option"
  p_color :: "rgb option"

datatype temperature_unit = F | C

record auto_data =
  auto_current_temperature :: real
  auto_state :: nat

text \<open>
  The interface \<open>OnlineDeviceData\<close>. The properties \<open>status\<close> and \<open>auto\<close> of the
  source are the fields \<open>data_status\<close> and \<open>data_auto\<close> here, since \<open>status\<close> is
  also a property of a response and \<open>auto\<close> one of the night light.
\<close>

record OnlineDeviceData =
  current_temperature :: real
  ambient_temperature :: real
  device_status :: nat
  state :: nat
  current_mode :: nat
  data_status :: nat
  firmware_version :: string
  temperature_unit :: temperature_unit
  data_auto :: auto_data
  night_light_setting :: NightLightData

text \<open>
  The values that the property \<open>data\<close> of a parsed body can have, and so the values
  that the field \<open>data\<close> of the accessory can hold. The field is declared as
  \<open>DeviceData = OnlineDeviceData | null\<close>, that is \<open>Null\<close> or \<open>Snapshot\<close>; but
  \<open>response.json()\<close> is untyped and nothing checks what \<open>updateStatus\<close> stores, so at
  run time the field can also hold \<open>undefined\<close> (the body has no property \<open>data\<close>),
  the object \<open>{token}\<close> of a login body, or any other JSON value, which has none of
  the properties that the code reads. A snapshot is a complete \<open>OnlineDeviceData\<close>;
  an object with only some of its properties is not represented.
\<close>

datatype data_value =
  Undefined
  | Null
  | Snapshot OnlineDeviceData
  | TokenObject string
  | OtherValue

subsection \<open>Requests and responses\<close>

text \<open>
  The argument of \<open>JSON.stringify\<close> in \<open>updateThermostat\<close>: either \<open>{state}\<close> or
  \<open>{temperature}\<close>. \<open>TemperatureNull\<close> is \<open>{temperature}\<close> with an infinite number,
  which \<open>JSON.stringify\<close> writes as \<open>null\<close>.
\<close>

datatype thermostat_body = State nat | Temperature real | TemperatureNull

text \<open>
  A request body is kept as the value that the source serialises: the list of form
  fields (before URL encoding), or the object handed to \<open>JSON.stringify\<close>. A
  night-light object is either complete or has only the properties of a
  \<open>Partial<NightLightData>\<close>.
\<close>

datatype request_body =
  NoBody
  | Form "(string \<times> string) list"
  | ThermostatJson thermostat_body
  | NightLightJson NightLightData
  | PartialNightLightJson PartialNightLightData

text \<open>The property \<open>method\<close> of \<open>RequestInit\<close> is the field \<open>http_method\<close>.\<close>

record request =
  url :: string
  http_method :: string
  headers :: "(string \<times> string) list"
  body :: request_body

text \<open>
  What \<open>response.json()\<close> gives: the body is not JSON (the promise rejects), it is the
  JSON value \<open>null\<close>, or it is another JSON value, given by the value of its property
  \<open>data\<close> (\<open>Undefined\<close> when it has none).
\<close>

datatype response_body =
  NotJson
  | JsonNull
  | Json data_value

text \<open>
  The bodies \<open>{data: {token}}\<close> of a login and \<open>{data: snapshot}\<close> of a device, and a
  body without the property \<open>data\<close>, such as \<open>{}\<close> or \<open>{message: 'ok'}\<close>.
\<close>

abbreviation TokenJson :: "string \<Rightarrow> response_body" where
  "TokenJson t \<equiv> Json (TokenObject t)"

abbreviation DeviceJson :: "OnlineDeviceData \<Rightarrow> response_body" where
  "DeviceJson d \<equiv> Json (Snapshot d)"

abbreviation OtherJson :: response_body where
  "OtherJson \<equiv> Json Undefined"

record response =
  status :: nat
  json :: response_body

text \<open>\<open>response.ok\<close> of the Fetch standard: a status from 200 to 299.\<close>

definition ok :: "response \<Rightarrow> bool" where
  "ok res = (200 \<le> status res \<and> status res \<le> 299)"

text \<open>The global \<open>fetch\<close> either rejects (transport failure) or resolves to a response.\<close>

datatype net_result = Rejected | Resolved response

datatype HAPStatus =
  SERVICE_COMMUNICATION_FAILURE
  | INSUFFICIENT_AUTHORIZATION
  | RESOURCE_BUSY

text \<open>
  The exceptions of the two modules: the \<open>HapStatusError\<close> that the source throws, the
  \<open>SyntaxError\<close> of \<open>response.json()\<close> on a body that is not JSON, and the
  \<open>TypeError\<close> of reading or destructuring a property of \<open>undefined\<close> or \<open>null\<close>.
\<close>

datatype error = HapStatusError HAPStatus | SyntaxError | TypeError

subsection \<open>The environment and the state\<close>

text \<open>
  Everything the plugin does not decide: the outcome of the \<open>k\<close>-th network request
  (counted from 0 over the whole run), the configured credentials, the identifier that
  \<open>uuid.generate(Math.random().toString())\<close> gives for the \<open>k\<close>-th request, and the
  numeric id of the device in the accessory's context.
\<close>

record env =
  reply :: "nat \<Rightarrow> net_result"
  username :: string
  password :: string
  random_uuid :: "nat \<Rightarrow> string"
  device_id :: nat

text \<open>
  The mutable fields of the platform (\<open>authToken\<close>) and of one accessory (\<open>data\<close>),
  with two traces of effects: the requests handed to the global \<open>fetch\<close>, in order, and
  the delays of the calls \<open>setTimeout(this.poll.bind(this), delay)\<close>, in order.
\<close>

record system =
  authToken :: "string option"
  data :: data_value
  sent :: "request list"
  timeouts :: "nat list"

text \<open>Both fields start as \<open>null\<close>.\<close>

definition initial :: system where
  "initial = \<lparr>authToken = None, data = Null, sent = [], timeouts = []\<rparr>"

section \<open>The platform: fetch and authorize\<close>

text \<open>
  The headers of a request: those of \<open>init\<close>, then \<open>Authorization\<close> when
  \<open>this.authToken\<close> is truthy (neither \<open>null\<close> nor the empty string).
\<close>

definition auth_headers :: "string option \<Rightarrow> (string \<times> string) list" where
  "auth_headers tok =
     (case tok of
        None \<Rightarrow> []
      | Some t \<Rightarrow> if t = [] then [] else [(''Authorization'', ''Bearer '' @ t)])"

definition with_auth :: "string option \<Rightarrow> request \<Rightarrow> request" where
  "with_auth tok init = init\<lparr>headers := headers init @ auth_headers tok\<rparr>"

definition loginRequest :: "env \<Rightarrow> nat \<Rightarrow> request" where
  "loginRequest e k =
     \<lparr>url = ''https://app-apis.enviliving.com/apis/v1/auth/login'',
      http_method = ''POST'',
      headers = [(''Content-Type'', ''application/x-www-form-urlencoded'')],
      body = Form [(''username'', username e), (''password'', password e),
                   (''login_type'', ''1''), (''device_type'', ''ios''),
                   (''device_id'', random_uuid e k)]\<rparr>"

text \<open>
  \<open>fetch\<close> and \<open>authorize\<close> call each other, and nothing in the source bounds the
  recursion, so both take fuel: \<open>None\<close> is a call that has not returned within the
  fuel. One unit of fuel is one call of \<open>fetch\<close>.

  The calls of the logger are left out, and \<open>response.text()\<close>, which the source
  awaits only to log the body, is taken to resolve. In \<open>authorize\<close>, the pattern
  \<open>{data: {token: authToken}}\<close> throws a \<open>TypeError\<close> when the body or its \<open>data\<close>
  is \<open>null\<close> or \<open>undefined\<close>; a \<open>data\<close> without a \<open>token\<close> stores \<open>undefined\<close>, which
  is \<open>None\<close> here: like \<open>null\<close> it is falsy, and the token is only ever tested for
  truthiness.
\<close>

fun fetch :: "env \<Rightarrow> nat \<Rightarrow> system \<Rightarrow> request \<Rightarrow> ((error + response) \<times> system) option"
  and authorize :: "env \<Rightarrow> nat \<Rightarrow> system \<Rightarrow> ((error + unit) \<times> system) option"
where
  "fetch e 0 s init = None"
| "fetch e (Suc n) s init =
     (let s1 = s\<lparr>sent := sent s @ [with_auth (authToken s) init]\<rparr> in
      case reply e (length (sent s)) of
        Rejected \<Rightarrow> Some (Inl (HapStatusError SERVICE_COMMUNICATION_FAILURE), s1)
      | Resolved res \<Rightarrow>
          if status res = 403 then
            (case authorize e n (s1\<lparr>authToken := Some []\<rparr>) of
               None \<Rightarrow> None
             | Some (Inl err, s2) \<Rightarrow> Some (Inl err, s2)
             | Some (Inr u, s2) \<Rightarrow> fetch e n s2 init)
          else if status res = 401 then
            Some (Inl (HapStatusError INSUFFICIENT_AUTHORIZATION), s1)
          else if \<not> ok res then
            Some (Inl (HapStatusError SERVICE_COMMUNICATION_FAILURE), s1)
          else if status res \<noteq> 200 then
            Some (Inl (HapStatusError SERVICE_COMMUNICATION_FAILURE), s1)
          else Some (Inr res, s1))"
| "authorize e n s =
     (let s0 = s\<lparr>authToken := Some []\<rparr> in
      case fetch e n s0 (loginRequest e (length (sent s))) of
        None \<Rightarrow> None
      | Some (Inl err, s1) \<Rightarrow> Some (Inl err, s1)
      | Some (Inr res, s1) \<Rightarrow>
          (case json res of
             NotJson \<Rightarrow> Some (Inl SyntaxError, s1)
           | JsonNull \<Rightarrow> Some (Inl TypeError, s1)
           | Json Undefined \<Rightarrow> Some (Inl TypeError, s1)
           | Json Null \<Rightarrow> Some (Inl TypeError, s1)
           | Json (TokenObject t) \<Rightarrow> Some (Inr (), s1\<lparr>authToken := Some t\<rparr>)
           | Json (Snapshot d) \<Rightarrow> Some (Inr (), s1\<lparr>authToken := None\<rparr>)
           | Json OtherValue \<Rightarrow> Some (Inr (), s1\<lparr>authToken := None\<rparr>)))"

declare authorize.simps [simp del]

section \<open>The accessory\<close>

text \<open>The decimal digits of a number, as a template literal prints a device id.\<close>

fun string_of_nat :: "nat \<Rightarrow> string" where
  "string_of_nat n =
     (if n < 10 then [char_of (48 + n)]
      else string_of_nat (n div 10) @ [char_of (48 + n mod 10)])"

declare string_of_nat.simps [simp del]

text \<open>
  \<open>guardedOnlineData\<close> throws \<open>RESOURCE_BUSY\<close> when \<open>this.data === null\<close> and returns
  \<open>this.data\<close> otherwise, whatever it holds. The test of \<open>device_status\<close> is commented
  out in the source.
\<close>

definition guardedOnlineData :: "system \<Rightarrow> error + data_value" where
  "guardedOnlineData s =
     (if data s = Null then Inl (HapStatusError RESOURCE_BUSY) else Inr (data s))"

definition statusRequest :: "env \<Rightarrow> request" where
  "statusRequest e =
     \<lparr>url = ''https://app-apis.enviliving.com/apis/v1/device/'' @ string_of_nat (device_id e),
      http_method = ''GET'',
      headers = [],
      body = NoBody\<rparr>"

text \<open>
  \<open>updateStatus\<close>: \<open>const { data } = await (await fetch(...)).json(); this.data = data\<close>.
  The destructuring throws a \<open>TypeError\<close> on the JSON value \<open>null\<close>; on every other
  parsed body the value of its property \<open>data\<close> is stored, whatever it is.
\<close>

definition updateStatus :: "env \<Rightarrow> nat \<Rightarrow> system \<Rightarrow> ((error + unit) \<times> system) option" where
  "updateStatus e n s =
     (case fetch e n s (statusRequest e) of
        None \<Rightarrow> None
      | Some (Inl err, s1) \<Rightarrow> Some (Inl err, s1)
      | Some (Inr res, s1) \<Rightarrow>
          (case json res of
             NotJson \<Rightarrow> Some (Inl SyntaxError, s1)
           | JsonNull \<Rightarrow> Some (Inl TypeError, s1)
           | Json v \<Rightarrow> Some (Inr (), s1\<lparr>data := v\<rparr>)))"

text \<open>
  \<open>poll\<close>: \<open>updateStatus\<close>, its rejection caught and logged, then
  \<open>setTimeout(this.poll.bind(this), 10 * 1000)\<close> in either case.
\<close>

definition poll :: "env \<Rightarrow> nat \<Rightarrow> system \<Rightarrow> system option" where
  "poll e n s =
     (case updateStatus e n s of
        None \<Rightarrow> None
      | Some (res, s1) \<Rightarrow> Some (s1\<lparr>timeouts := timeouts s1 @ [10 * 1000]\<rparr>))"

text \<open>
  The first \<open>k\<close> cycles of the loop: the constructor calls \<open>poll\<close> once, and the timer
  set by a cycle calls it again.
\<close>

fun poll_cycles :: "env \<Rightarrow> nat \<Rightarrow> nat \<Rightarrow> system \<Rightarrow> system option" where
  "poll_cycles e n 0 s = Some s"
| "poll_cycles e n (Suc k) s =
     (case poll e n s of
        None \<Rightarrow> None
      | Some s1 \<Rightarrow> poll_cycles e n k s1)"

definition thermostatRequest :: "env \<Rightarrow> thermostat_body \<Rightarrow> request" where
  "thermostatRequest e tb =
     \<lparr>url = ''https://app-apis.enviliving.com/apis/v1/device/update-temperature/''
             @ string_of_nat (device_id e),
      http_method = ''PATCH'',
      headers = [(''Content-Type'', ''application/json'')],
      body = ThermostatJson tb\<rparr>"

text \<open>
  \<open>updateThermostat\<close> sends the body as it is given, parses the reply for the log
  (\<open>await response.json()\<close>) and then awaits \<open>updateStatus\<close>.
\<close>

definition updateThermostat ::
  "env \<Rightarrow> nat \<Rightarrow> system \<Rightarrow> thermostat_body \<Rightarrow> ((error + unit) \<times> system) option" where
  "updateThermostat e n s tb =
     (case fetch e n s (thermostatRequest e tb) of
        None \<Rightarrow> None
      | Some (Inl err, s1) \<Rightarrow> Some (Inl err, s1)
      | Some (Inr res, s1) \<Rightarrow>
          (case json res of
             NotJson \<Rightarrow> Some (Inl SyntaxError, s1)
           | _ \<Rightarrow> updateStatus e n s1))"

text \<open>The object spread \<open>{...base, ...settings}\<close>: a property of \<open>settings\<close> wins.\<close>

definition spread :: "NightLightData \<Rightarrow> PartialNightLightData \<Rightarrow> NightLightData" where
  "spread base settings =
     \<lparr>brightness = (case p_brightness settings of None \<Rightarrow> brightness base | Some v \<Rightarrow> v),
      auto = (case p_auto settings of None \<Rightarrow> auto base | Some v \<Rightarrow> v),
      on = (case p_on settings of None \<Rightarrow> on base | Some v \<Rightarrow> v),
      off = (case p_off settings of None \<Rightarrow> off base | Some v \<Rightarrow> v),
      color = (case p_color settings of None \<Rightarrow> color base | Some v \<Rightarrow> v)\<rparr>"

definition nightLightPatch :: "env \<Rightarrow> request_body \<Rightarrow> request" where
  "nightLightPatch e bd =
     \<lparr>url = ''https://app-apis.enviliving.com/apis/v1/device/night-light-setting/''
             @ string_of_nat (device_id e),
      http_method = ''PATCH'',
      headers = [(''Content-Type'', ''application/json'')],
      body = bd\<rparr>"

definition nightLightRequest :: "env \<Rightarrow> NightLightData \<Rightarrow> request" where
  "nightLightRequest e nl = nightLightPatch e (NightLightJson nl)"

text \<open>
  The object \<open>{...held.night_light_setting, ...settings}\<close> for the value \<open>held\<close> that
  \<open>guardedOnlineData\<close> returned: reading the property of \<open>undefined\<close> throws; a value
  that is not a snapshot has no such property, and spreading \<open>undefined\<close> adds
  nothing, so that the object has the properties of \<open>settings\<close> only.
\<close>

definition nightLightBody :: "data_value \<Rightarrow> PartialNightLightData \<Rightarrow> error + request_body" where
  "nightLightBody held settings =
     (case held of
        Undefined \<Rightarrow> Inl TypeError
      | Null \<Rightarrow> Inl TypeError
      | Snapshot d \<Rightarrow> Inr (NightLightJson (spread (night_light_setting d) settings))
      | TokenObject t \<Rightarrow> Inr (PartialNightLightJson settings)
      | OtherValue \<Rightarrow> Inr (PartialNightLightJson settings))"

definition updateNightLightSettings ::
  "env \<Rightarrow> nat \<Rightarrow> system \<Rightarrow> PartialNightLightData \<Rightarrow> ((error + unit) \<times> system) option" where
  "updateNightLightSettings e n s settings =
     (case guardedOnlineData s of
        Inl err \<Rightarrow> Some (Inl err, s)
      | Inr held \<Rightarrow>
          (case nightLightBody held settings of
             Inl err \<Rightarrow> Some (Inl err, s)
           | Inr bd \<Rightarrow>
               (case fetch e n s (nightLightPatch e bd) of
                  None \<Rightarrow> None
                | Some (Inl err, s1) \<Rightarrow> Some (Inl err, s1)
                | Some (Inr res, s1) \<Rightarrow> updateStatus e n s1)))"

subsection \<open>The handlers of the characteristics\<close>

text \<open>
  The handlers are anonymous functions in the constructor; each is named here after
  its characteristic. HomeKit temperatures are in Celsius.

  A handler reads a property of what \<open>guardedOnlineData\<close> returns. On \<open>undefined\<close>
  the read throws a \<open>TypeError\<close>; on a value that is not a snapshot the property is
  \<open>undefined\<close>, which is not \<open>"F"\<close> and whose own properties cannot be read.
\<close>

definition temperatureJson :: "real option \<Rightarrow> thermostat_body" where
  "temperatureJson x = (case x of None \<Rightarrow> TemperatureNull | Some t \<Rightarrow> Temperature t)"

definition TargetTemperature_onSet ::
  "env \<Rightarrow> nat \<Rightarrow> system \<Rightarrow> real \<Rightarrow> ((error + unit) \<times> system) option" where
  "TargetTemperature_onSet e n s v =
     (case guardedOnlineData s of
        Inl err \<Rightarrow> Some (Inl err, s)
      | Inr Undefined \<Rightarrow> Some (Inl TypeError, s)
      | Inr Null \<Rightarrow> Some (Inl TypeError, s)
      | Inr (Snapshot d) \<Rightarrow>
          updateThermostat e n s
            (temperatureJson (if temperature_unit d = F then cToF_double v else Some v))
      | Inr (TokenObject t) \<Rightarrow> updateThermostat e n s (Temperature v)
      | Inr OtherValue \<Rightarrow> updateThermostat e n s (Temperature v))"

definition On_onGet :: "system \<Rightarrow> error + bool" where
  "On_onGet s =
     (case guardedOnlineData s of
        Inl err \<Rightarrow> Inl err
      | Inr Undefined \<Rightarrow> Inl TypeError
      | Inr Null \<Rightarrow> Inl TypeError
      | Inr (Snapshot d) \<Rightarrow> Inr (\<not> off (night_light_setting d))
      | Inr (TokenObject t) \<Rightarrow> Inl TypeError
      | Inr OtherValue \<Rightarrow> Inl TypeError)"

definition On_onSet :: "env \<Rightarrow> nat \<Rightarrow> system \<Rightarrow> bool \<Rightarrow> ((error + unit) \<times> system) option" where
  "On_onSet e n s v =
     updateNightLightSettings e n s
       \<lparr>p_brightness = None, p_auto = Some False, p_on = Some v, p_off = Some (\<not> v),
        p_color = None\<rparr>"

definition Brightness_onSet ::
  "env \<Rightarrow> nat \<Rightarrow> system \<Rightarrow> real \<Rightarrow> ((error + unit) \<times> system) option" where
  "Brightness_onSet e n s v =
     updateNightLightSettings e n s
       \<lparr>p_brightness = Some v, p_auto = None, p_on = None, p_off = None, p_color = None\<rparr>"

section \<open>Example inputs\<close>

text \<open>
  A server given by the list of its answers, in order; it drops the connection once the
  list is used up.
\<close>

definition script :: "net_result list \<Rightarrow> nat \<Rightarrow> net_result" where
  "script rs k = (if k < length rs then rs ! k else Rejected)"

definition example_env :: "net_result list \<Rightarrow> env" where
  "example_env rs =
     \<lparr>reply = script rs, username = ''user'', password = ''secret'',
      random_uuid = (\<lambda>k. ''uuid''), device_id = 42\<rparr>"

text \<open>
  A snapshot of a device that reports itself offline, in the given unit, with the night
  light of the specification's scenario.
\<close>

definition example_data :: "temperature_unit \<Rightarrow> OnlineDeviceData" where
  "example_data u =
     \<lparr>current_temperature = 20, ambient_temperature = 19, device_status = 0, state = 1,
      current_mode = 1, data_status = 1, firmware_version = ''1.0'', temperature_unit = u,
      data_auto = \<lparr>auto_current_temperature = 20, auto_state = 1\<rparr>,
      night_light_setting =
        \<lparr>brightness = 10, auto = False, on = True, off = False,
         color = \<lparr>r = 1, g = 2, b = 3\<rparr>\<rparr>\<rparr>"

text \<open>A server that answers every request with status 403.\<close>

definition always_403 :: env where
  "always_403 =
     \<lparr>reply = (\<lambda>k. Resolved \<lparr>status = 403, json = NotJson\<rparr>), username = ''user'',
      password = ''secret'', random_uuid = (\<lambda>k. ''uuid''), device_id = 42\<rparr>"

section \<open>Frame: what a call may change\<close>

text \<open>
  \<open>extends s s'\<close>: from \<open>s\<close> to \<open>s'\<close> the snapshot and the timers are the same, and
  requests were only added to the trace.
\<close>

definition extends :: "system \<Rightarrow> system \<Rightarrow> bool" where
  "extends s s' =
     (data s' = data s \<and> timeouts s' = timeouts s \<and> (\<exists>rest. sent s' = sent s @ rest))"

lemma extends_refl: "extends s s"
  by (simp add: extends_def)

lemma extends_trans: "extends s s1 \<Longrightarrow> extends s1 s2 \<Longrightarrow> extends s s2"
  by (auto simp: extends_def)

lemma extends_authToken: "extends s s1 \<Longrightarrow> extends s (s1\<lparr>authToken := t\<rparr>)"
  by (simp add: extends_def)

lemma extends_sent: "extends s (s\<lparr>sent := sent s @ xs\<rparr>)"
  by (simp add: extends_def)

lemma extends_from_authToken: "extends (s\<lparr>authToken := t\<rparr>) s1 \<Longrightarrow> extends s s1"
  by (simp add: extends_def)

lemma extends_from_sent: "extends (s\<lparr>sent := sent s @ xs\<rparr>) s1 \<Longrightarrow> extends s s1"
  by (auto simp: extends_def)

lemma extends_first:
  "extends (s\<lparr>sent := sent s @ [x]\<rparr>) s1 \<Longrightarrow> \<exists>rest. sent s1 = sent s @ x # rest"
  by (auto simp: extends_def)

text \<open>\<open>authorize\<close> inherits the frame of the \<open>fetch\<close> it calls.\<close>

lemma authorize_extends_step:
  assumes IH: "\<And>s init out s'. fetch e n s init = Some (out, s') \<Longrightarrow> extends s s'"
    and A: "authorize e n s = Some (out', s')"
  shows "extends s s'"
proof -
  let ?s0 = "s\<lparr>authToken := Some []\<rparr>"
  obtain o1 s1 where L: "fetch e n ?s0 (loginRequest e (length (sent s))) = Some (o1, s1)"
    using A
    by (cases "fetch e n ?s0 (loginRequest e (length (sent s)))")
      (auto simp: authorize.simps Let_def)
  have E1: "extends s s1"
    using IH [OF L] by (rule extends_from_authToken)
  show ?thesis
  proof (cases o1)
    case (Inl err)
    with A L have "s' = s1" by (simp add: authorize.simps Let_def)
    with E1 show ?thesis by simp
  next
    case (Inr res)
    with A L have "s' = s1 \<or> (\<exists>t. s' = s1\<lparr>authToken := t\<rparr>)"
      by (auto simp: authorize.simps Let_def split: response_body.splits data_value.splits)
    with E1 show ?thesis by (auto intro: extends_authToken)
  qed
qed

text \<open>
  Every call of \<open>fetch\<close> that returns has put its own request on the trace first, and
  has changed neither the snapshot nor the timers.
\<close>

lemma fetch_extends_first:
  "fetch e n s init = Some (out, s') \<Longrightarrow>
   extends (s\<lparr>sent := sent s @ [with_auth (authToken s) init]\<rparr>) s'"
proof (induction n arbitrary: s init out s')
  case 0
  then show ?case by simp
next
  case (Suc n)
  let ?s1 = "s\<lparr>sent := sent s @ [with_auth (authToken s) init]\<rparr>"
  have IH: "\<And>s init out s'. fetch e n s init = Some (out, s') \<Longrightarrow> extends s s'"
    using Suc.IH by (blast intro: extends_from_sent)
  show ?case
  proof (cases "reply e (length (sent s))")
    case Rejected
    with Suc.prems have "s' = ?s1" by (simp add: Let_def)
    then show ?thesis by (simp add: extends_refl)
  next
    case (Resolved res)
    show ?thesis
    proof (cases "status res = 403")
      case False
      with Resolved Suc.prems have "s' = ?s1"
        by (simp add: Let_def split: if_splits)
      then show ?thesis by (simp add: extends_refl)
    next
      case True
      let ?s1' = "?s1\<lparr>authToken := Some []\<rparr>"
      from True Resolved Suc.prems obtain o2 s2 where
        A: "authorize e n ?s1' = Some (o2, s2)"
        by (cases "authorize e n ?s1'") (auto simp: Let_def)
      have "extends ?s1' s2"
        using IH A by (rule authorize_extends_step)
      then have E2: "extends ?s1 s2"
        by (rule extends_from_authToken)
      show ?thesis
      proof (cases o2)
        case (Inl err)
        with True Resolved Suc.prems A have "s' = s2"
          by (simp add: Let_def)
        with E2 show ?thesis by simp
      next
        case (Inr u)
        with True Resolved Suc.prems A have "fetch e n s2 init = Some (out, s')"
          by (simp add: Let_def)
        then have "extends s2 s'" by (rule IH)
        with E2 show ?thesis by (rule extends_trans)
      qed
    qed
  qed
qed

lemma fetch_extends: "fetch e n s init = Some (out, s') \<Longrightarrow> extends s s'"
  by (blast intro: extends_from_sent dest: fetch_extends_first)

lemma authorize_extends: "authorize e n s = Some (out, s') \<Longrightarrow> extends s s'"
  using fetch_extends by (rule authorize_extends_step)

lemma fetch_sent_first:
  "fetch e n s init = Some (out, s') \<Longrightarrow>
   \<exists>rest. sent s' = sent s @ with_auth (authToken s) init # rest"
  by (blast dest: fetch_extends_first extends_first)

lemmas run_defs =
  example_env_def script_def initial_def with_auth_def auth_headers_def ok_def Let_def

text \<open>
  \<open>updateStatus\<close> either fails and stays within the frame, or stores the \<open>data\<close> of
  the body that its \<open>fetch\<close> returned.
\<close>

lemma updateStatus_cases:
  assumes "updateStatus e n s = Some (out, s')"
  shows "(\<exists>err. out = Inl err \<and> extends s s') \<or>
         (\<exists>res sa v. out = Inr () \<and> fetch e n s (statusRequest e) = Some (Inr res, sa) \<and>
            json res = Json v \<and> s' = sa\<lparr>data := v\<rparr>)"
proof (cases "fetch e n s (statusRequest e)")
  case None
  with assms show ?thesis by (simp add: updateStatus_def)
next
  case (Some p)
  obtain o1 sa where p: "p = (o1, sa)" by (cases p)
  have E: "extends s sa" using Some p by (auto intro: fetch_extends)
  show ?thesis
  proof (cases o1)
    case (Inl err)
    with assms Some p have "out = Inl err \<and> s' = sa" by (simp add: updateStatus_def)
    with E show ?thesis by auto
  next
    case (Inr res)
    with assms Some p E show ?thesis
      by (cases "json res") (auto simp: updateStatus_def)
  qed
qed

lemma fetch_200:
  "reply e (length (sent s)) = Resolved res \<Longrightarrow> status res = 200 \<Longrightarrow>
   fetch e (Suc n) s init =
     Some (Inr res, s\<lparr>sent := sent s @ [with_auth (authToken s) init]\<rparr>)"
  by (simp add: Let_def ok_def)

lemma updateStatus_extends_sent:
  assumes "updateStatus e n s = Some (out, s')"
  shows "timeouts s' = timeouts s \<and> (\<exists>rest. sent s' = sent s @ rest)"
  using updateStatus_cases [OF assms]
  by (auto simp: extends_def dest!: fetch_extends)

lemma updateStatus_failure_data:
  "updateStatus e n s = Some (Inl err, s') \<Longrightarrow> data s' = data s"
  by (auto dest!: updateStatus_cases simp: extends_def)

section \<open>Unit conversion: claim C9\<close>


section \<open>The authenticated client: claim C8\<close>

text \<open>
  C8. A request whose response has status 401 fails with \<open>INSUFFICIENT_AUTHORIZATION\<close>
  after that one request, with no login; a request that the transport rejects, and a
  request whose response has a status other than 200, 401 and 403, fail with
  \<open>SERVICE_COMMUNICATION_FAILURE\<close>, again after that one request. The two errors are
  different. (Status 403 is the re-authentication case.)
\<close>

theorem fetch_error_classes:
  "(reply e (length (sent s)) = Rejected \<longrightarrow>
      fetch e (Suc n) s init =
        Some (Inl (HapStatusError SERVICE_COMMUNICATION_FAILURE),
              s\<lparr>sent := sent s @ [with_auth (authToken s) init]\<rparr>)) \<and>
   (\<forall>res. reply e (length (sent s)) = Resolved res \<and> status res = 401 \<longrightarrow>
      fetch e (Suc n) s init =
        Some (Inl (HapStatusError INSUFFICIENT_AUTHORIZATION),
              s\<lparr>sent := sent s @ [with_auth (authToken s) init]\<rparr>)) \<and>
   (\<forall>res. reply e (length (sent s)) = Resolved res \<and> status res \<notin> {200, 401, 403} \<longrightarrow>
      fetch e (Suc n) s init =
        Some (Inl (HapStatusError SERVICE_COMMUNICATION_FAILURE),
              s\<lparr>sent := sent s @ [with_auth (authToken s) init]\<rparr>)) \<and>
   HapStatusError INSUFFICIENT_AUTHORIZATION \<noteq> HapStatusError SERVICE_COMMUNICATION_FAILURE"
  by (simp add: Let_def)

theorem fetch_error_classes_witness:
  "fetch (example_env [Resolved \<lparr>status = 401, json = NotJson\<rparr>]) 1 initial
       (statusRequest (example_env [])) =
     Some (Inl (HapStatusError INSUFFICIENT_AUTHORIZATION),
           initial\<lparr>sent := [statusRequest (example_env [])]\<rparr>) \<and>
   fetch (example_env [Resolved \<lparr>status = 500, json = NotJson\<rparr>]) 1 initial
       (statusRequest (example_env [])) =
     Some (Inl (HapStatusError SERVICE_COMMUNICATION_FAILURE),
           initial\<lparr>sent := [statusRequest (example_env [])]\<rparr>) \<and>
   fetch (example_env []) 1 initial (statusRequest (example_env [])) =
     Some (Inl (HapStatusError SERVICE_COMMUNICATION_FAILURE),
           initial\<lparr>sent := [statusRequest (example_env [])]\<rparr>)"
  using fetch_error_classes
          [where e = "example_env [Resolved \<lparr>status = 401, json = NotJson\<rparr>]"
             and s = initial and n = 0 and init = "statusRequest (example_env [])"]
        fetch_error_classes
          [where e = "example_env [Resolved \<lparr>status = 500, json = NotJson\<rparr>]"
             and s = initial and n = 0 and init = "statusRequest (example_env [])"]
        fetch_error_classes
          [where e = "example_env []" and s = initial and n = 0
             and init = "statusRequest (example_env [])"]
  by (simp add: statusRequest_def run_defs del: fetch.simps)

section \<open>Re-authentication and the token: claims C1 and C3\<close>

lemma authorize_200:
  assumes "reply e (length (sent s)) = Resolved \<lparr>status = 200, json = TokenJson t\<rparr>"
  shows "authorize e (Suc n) s =
     Some (Inr (), s\<lparr>authToken := Some t, sent := sent s @ [loginRequest e (length (sent s))]\<rparr>)"
proof -
  have "fetch e (Suc n) (s\<lparr>authToken := Some []\<rparr>) (loginRequest e (length (sent s))) =
     Some (Inr \<lparr>status = 200, json = TokenJson t\<rparr>,
           s\<lparr>authToken := Some [],
             sent := sent s @ [with_auth (Some []) (loginRequest e (length (sent s)))]\<rparr>)"
    using assms by (simp add: Let_def ok_def)
  then show ?thesis
    by (simp add: authorize.simps [of e "Suc n"] with_auth_def auth_headers_def del: fetch.simps)
qed

lemma fetch_403_unfold:
  assumes "reply e (length (sent s)) = Resolved res" and "status res = 403"
  shows "fetch e (Suc n) s init =
     (case authorize e n
             (s\<lparr>sent := sent s @ [with_auth (authToken s) init], authToken := Some []\<rparr>) of
        None \<Rightarrow> None
      | Some (Inl err, sb) \<Rightarrow> Some (Inl err, sb)
      | Some (Inr u, sb) \<Rightarrow> fetch e n sb init)"
  using assms by (simp add: Let_def)

lemma fetch_403_login_ok:
  assumes "reply e (length (sent s)) = Resolved res" and "status res = 403"
    and "reply e (Suc (length (sent s))) = Resolved \<lparr>status = 200, json = TokenJson t\<rparr>"
  shows "fetch e (Suc (Suc n)) s init =
     fetch e (Suc n)
       (s\<lparr>authToken := Some t,
          sent := sent s @ [with_auth (authToken s) init,
                            loginRequest e (Suc (length (sent s)))]\<rparr>) init"
proof -
  let ?sa = "s\<lparr>sent := sent s @ [with_auth (authToken s) init], authToken := Some []\<rparr>"
  have "reply e (length (sent ?sa)) = Resolved \<lparr>status = 200, json = TokenJson t\<rparr>"
    using assms(3) by simp
  then have "authorize e (Suc n) ?sa =
     Some (Inr (), ?sa\<lparr>authToken := Some t,
                        sent := sent ?sa @ [loginRequest e (length (sent ?sa))]\<rparr>)"
    by (rule authorize_200)
  then show ?thesis
    by (simp add: fetch_403_unfold [OF assms(1,2)] del: fetch.simps)
qed

lemma fetch_retries:
  assumes "\<forall>j<k. (\<exists>res. reply e (length (sent s) + 2 * j) = Resolved res \<and> status res = 403) \<and>
                  reply e (length (sent s) + 2 * j + 1) =
                    Resolved \<lparr>status = 200, json = TokenJson (tok j)\<rparr>"
    and "reply e (length (sent s) + 2 * k) = Resolved res"
    and "status res = 200"
  shows "\<exists>s'. fetch e (Suc k + n) s init = Some (Inr res, s') \<and>
           length (sent s') = length (sent s) + 2 * k + 1 \<and>
           authToken s' = (if k = 0 then authToken s else Some (tok (k - 1)))"
  using assms
proof (induction k arbitrary: s tok)
  case 0
  then have "fetch e (Suc n) s init =
     Some (Inr res, s\<lparr>sent := sent s @ [with_auth (authToken s) init]\<rparr>)"
    by (simp add: fetch_200 del: fetch.simps)
  then show ?case by (simp del: fetch.simps)
next
  case (Suc k)
  let ?sb = "s\<lparr>authToken := Some (tok 0),
               sent := sent s @ [with_auth (authToken s) init,
                                 loginRequest e (Suc (length (sent s)))]\<rparr>"
  from Suc.prems(1) obtain r0 where
    a: "reply e (length (sent s)) = Resolved r0" "status r0 = 403"
    and b: "reply e (Suc (length (sent s))) = Resolved \<lparr>status = 200, json = TokenJson (tok 0)\<rparr>"
    by force
  have step: "fetch e (Suc (Suc (k + n))) s init = fetch e (Suc (k + n)) ?sb init"
    using a b by (rule fetch_403_login_ok)
  have len: "length (sent ?sb) = length (sent s) + 2" by simp
  have "\<forall>j<k. (\<exists>res. reply e (length (sent ?sb) + 2 * j) = Resolved res \<and> status res = 403) \<and>
              reply e (length (sent ?sb) + 2 * j + 1) =
                Resolved \<lparr>status = 200, json = TokenJson ((tok \<circ> Suc) j)\<rparr>"
  proof (intro allI impI)
    fix j assume "j < k"
    then have "Suc j < Suc k" by simp
    with Suc.prems(1) have
      "(\<exists>res. reply e (length (sent s) + 2 * Suc j) = Resolved res \<and> status res = 403) \<and>
       reply e (length (sent s) + 2 * Suc j + 1) =
         Resolved \<lparr>status = 200, json = TokenJson (tok (Suc j))\<rparr>"
      by blast
    then show "(\<exists>res. reply e (length (sent ?sb) + 2 * j) = Resolved res \<and> status res = 403) \<and>
              reply e (length (sent ?sb) + 2 * j + 1) =
                Resolved \<lparr>status = 200, json = TokenJson ((tok \<circ> Suc) j)\<rparr>"
      by (simp add: len add.assoc)
  qed
  moreover have "reply e (length (sent ?sb) + 2 * k) = Resolved res"
    using Suc.prems(2) by (simp add: len)
  ultimately obtain s' where
    r: "fetch e (Suc k + n) ?sb init = Some (Inr res, s')"
    and l: "length (sent s') = length (sent ?sb) + 2 * k + 1"
    and t: "authToken s' = (if k = 0 then authToken ?sb else Some ((tok \<circ> Suc) (k - 1)))"
    using Suc.IH [of ?sb "tok \<circ> Suc"] Suc.prems(3) by blast
  from r step have "fetch e (Suc (Suc k) + n) s init = Some (Inr res, s')"
    by (simp del: fetch.simps)
  moreover from l have "length (sent s') = length (sent s) + 2 * Suc k + 1"
    by (simp add: len)
  moreover from t have "authToken s' = Some (tok k)"
    by (cases k) simp_all
  ultimately show ?case by (simp del: fetch.simps)
qed

lemma always_403_never_returns:
  assumes "\<forall>i. \<exists>res. reply e i = Resolved res \<and> status res = 403"
  shows "fetch e n s init = None \<and> authorize e n s = None"
proof (induction n arbitrary: s init)
  case 0
  show ?case by (simp add: authorize.simps [of e 0])
next
  case (Suc n)
  have f: "fetch e (Suc n) sa ia = None" for sa ia
  proof -
    from assms obtain res where
      "reply e (length (sent sa)) = Resolved res" "status res = 403" by blast
    then show ?thesis
      by (simp add: fetch_403_unfold Suc.IH del: fetch.simps)
  qed
  then show ?case
    by (simp add: authorize.simps [of e "Suc n"] Let_def del: fetch.simps)
qed


text \<open>
  C1, as the claim states it, fails: the retry after a 403 is a call of \<open>fetch\<close>
  itself, which handles a second 403 like the first. Here the request is answered 403
  twice, with a successful login after each, and then 200: the call returns the 200
  response after two logins and three attempts, where the claim has it fail with
  \<open>SERVICE_COMMUNICATION_FAILURE\<close> at the second 403.
\<close>

theorem fetch_second_403_counterexample:
  "fetch
     (example_env [Resolved \<lparr>status = 403, json = NotJson\<rparr>,
                   Resolved \<lparr>status = 200, json = TokenJson ''t1''\<rparr>,
                   Resolved \<lparr>status = 403, json = NotJson\<rparr>,
                   Resolved \<lparr>status = 200, json = TokenJson ''t2''\<rparr>,
                   Resolved \<lparr>status = 200, json = OtherJson\<rparr>])
     3 initial (statusRequest (example_env [])) =
   Some (Inr \<lparr>status = 200, json = OtherJson\<rparr>,
     \<lparr>authToken = Some ''t2'', data = Null,
      sent = [statusRequest (example_env []),
              loginRequest (example_env []) 1,
              with_auth (Some ''t1'') (statusRequest (example_env [])),
              loginRequest (example_env []) 3,
              with_auth (Some ''t2'') (statusRequest (example_env []))],
      timeouts = []\<rparr>)"
  by (simp add: authorize.simps statusRequest_def loginRequest_def run_defs
      eval_nat_numeral)

text \<open>
  C1, amended. A 403 response clears the token, invokes \<open>authorize\<close> and retries the
  request through \<open>fetch\<close> itself, and the number of such retries is not bounded: when
  the request is answered 403 \<open>k\<close> times, each time followed by a successful login,
  and then 200, the call returns that response after \<open>2 * k + 1\<close> requests, holding
  the token of the last login; and against a server that answers every request with
  403 neither \<open>fetch\<close> nor \<open>authorize\<close> returns, whatever the fuel.
\<close>

theorem fetch_403_retries_unbounded:
  "((\<forall>j<k. (\<exists>r0. reply e (length (sent s) + 2 * j) = Resolved r0 \<and> status r0 = 403) \<and>
             reply e (length (sent s) + 2 * j + 1) =
               Resolved \<lparr>status = 200, json = TokenJson (tok j)\<rparr>) \<and>
    reply e (length (sent s) + 2 * k) = Resolved res \<and> status res = 200 \<longrightarrow>
      (\<exists>s'. fetch e (Suc k + n) s init = Some (Inr res, s') \<and>
         length (sent s') = length (sent s) + 2 * k + 1 \<and>
         authToken s' = (if k = 0 then authToken s else Some (tok (k - 1))))) \<and>
   ((\<forall>i. \<exists>r0. reply e i = Resolved r0 \<and> status r0 = 403) \<longrightarrow>
      fetch e n s init = None \<and> authorize e n s = None)"
proof (intro conjI impI)
  assume a: "(\<forall>j<k. (\<exists>r0. reply e (length (sent s) + 2 * j) = Resolved r0 \<and> status r0 = 403) \<and>
             reply e (length (sent s) + 2 * j + 1) =
               Resolved \<lparr>status = 200, json = TokenJson (tok j)\<rparr>) \<and>
    reply e (length (sent s) + 2 * k) = Resolved res \<and> status res = 200"
  show "\<exists>s'. fetch e (Suc k + n) s init = Some (Inr res, s') \<and>
         length (sent s') = length (sent s) + 2 * k + 1 \<and>
         authToken s' = (if k = 0 then authToken s else Some (tok (k - 1)))"
    by (rule fetch_retries) (use a in blast)+
next
  assume "\<forall>i. \<exists>r0. reply e i = Resolved r0 \<and> status r0 = 403"
  then show "fetch e n s init = None" by (simp add: always_403_never_returns)
next
  assume "\<forall>i. \<exists>r0. reply e i = Resolved r0 \<and> status r0 = 403"
  then show "authorize e n s = None" by (simp add: always_403_never_returns)
qed

theorem fetch_403_retries_unbounded_witness:
  "(\<exists>s'. fetch
            (example_env [Resolved \<lparr>status = 403, json = NotJson\<rparr>,
                          Resolved \<lparr>status = 200, json = TokenJson ''t1''\<rparr>,
                          Resolved \<lparr>status = 200, json = OtherJson\<rparr>])
            2 initial (statusRequest (example_env [])) =
          Some (Inr \<lparr>status = 200, json = OtherJson\<rparr>, s') \<and>
        length (sent s') = 3 \<and> authToken s' = Some ''t1'') \<and>
   fetch always_403 7 initial (statusRequest always_403) = None \<and>
   authorize always_403 7 initial = None"
proof -
  let ?e = "example_env [Resolved \<lparr>status = 403, json = NotJson\<rparr>,
                         Resolved \<lparr>status = 200, json = TokenJson ''t1''\<rparr>,
                         Resolved \<lparr>status = 200, json = OtherJson\<rparr>]"
  let ?res = "\<lparr>status = 200, json = OtherJson\<rparr>"
  have h1: "\<forall>j<1. (\<exists>r0. reply ?e (length (sent initial) + 2 * j) = Resolved r0 \<and> status r0 = 403) \<and>
             reply ?e (length (sent initial) + 2 * j + 1) =
               Resolved \<lparr>status = 200, json = TokenJson ((\<lambda>j. ''t1'') j)\<rparr>"
    by (simp add: run_defs)
  have h2: "reply ?e (length (sent initial) + 2 * 1) = Resolved ?res \<and> status ?res = 200"
    by (simp add: run_defs)
  have h3: "\<forall>i. \<exists>r0. reply always_403 i = Resolved r0 \<and> status r0 = 403"
    by (simp add: always_403_def)
  from h1 h2 fetch_403_retries_unbounded
    [where e = ?e and k = 1 and s = initial and tok = "\<lambda>j. ''t1''" and res = ?res and n = 0
       and init = "statusRequest (example_env [])"]
  have "\<exists>s'. fetch ?e (Suc 1 + 0) initial (statusRequest (example_env [])) = Some (Inr ?res, s') \<and>
         length (sent s') = length (sent initial) + 2 * 1 + 1 \<and>
         authToken s' = (if (1::nat) = 0 then authToken initial else Some ''t1'')"
    by blast
  then have a: "\<exists>s'. fetch ?e 2 initial (statusRequest (example_env [])) = Some (Inr ?res, s') \<and>
         length (sent s') = 3 \<and> authToken s' = Some ''t1''"
    by (simp add: initial_def numeral_2_eq_2 numeral_3_eq_3 del: fetch.simps)
  from h3 fetch_403_retries_unbounded
    [where e = always_403 and n = 7 and s = initial and init = "statusRequest always_403"]
  have "fetch always_403 7 initial (statusRequest always_403) = None \<and>
        authorize always_403 7 initial = None"
    by blast
  with a show ?thesis by blast
qed

text \<open>
  C3, as the claim states it, fails for status 401: the call fails and the token is
  the one held before, not the empty string.
\<close>

theorem fetch_401_keeps_token_counterexample:
  "fetch (example_env [Resolved \<lparr>status = 401, json = NotJson\<rparr>]) 1
     (initial\<lparr>authToken := Some ''tok''\<rparr>) (statusRequest (example_env [])) =
   Some (Inl (HapStatusError INSUFFICIENT_AUTHORIZATION),
     \<lparr>authToken = Some ''tok'', data = Null,
      sent = [with_auth (Some ''tok'') (statusRequest (example_env []))],
      timeouts = []\<rparr>) \<and>
   Some ''tok'' \<noteq> Some ([] :: string) \<and> Some ''tok'' \<noteq> (None :: string option)"
  by (simp add: statusRequest_def run_defs)

text \<open>
  C3, amended. The token is \<open>null\<close> at startup and is the returned token after a
  successful login, whose request carries no \<open>Authorization\<close> header. A 403 response
  clears the token and re-acquires it: the login request follows the rejected request
  on the trace, the retry runs with the new token when the login succeeds, and the
  call fails with the token empty when the transport rejects the login. A 401 response
  leaves the token as it was.
\<close>

theorem authToken_lifecycle:
  "authToken initial = None \<and>
   (reply e (length (sent s)) = Resolved \<lparr>status = 200, json = TokenJson t\<rparr> \<longrightarrow>
      authorize e (Suc n) s =
        Some (Inr (), s\<lparr>authToken := Some t,
                         sent := sent s @ [loginRequest e (length (sent s))]\<rparr>)) \<and>
   headers (loginRequest e i) = [(''Content-Type'', ''application/x-www-form-urlencoded'')] \<and>
   (\<forall>res. reply e (length (sent s)) = Resolved res \<and> status res = 403 \<and>
      reply e (Suc (length (sent s))) = Resolved \<lparr>status = 200, json = TokenJson t\<rparr> \<longrightarrow>
      fetch e (Suc (Suc n)) s init =
        fetch e (Suc n)
          (s\<lparr>authToken := Some t,
             sent := sent s @ [with_auth (authToken s) init,
                               loginRequest e (Suc (length (sent s)))]\<rparr>) init) \<and>
   (\<forall>res. reply e (length (sent s)) = Resolved res \<and> status res = 403 \<and>
      reply e (Suc (length (sent s))) = Rejected \<longrightarrow>
      fetch e (Suc (Suc n)) s init =
        Some (Inl (HapStatusError SERVICE_COMMUNICATION_FAILURE),
          s\<lparr>authToken := Some [],
            sent := sent s @ [with_auth (authToken s) init,
                              loginRequest e (Suc (length (sent s)))]\<rparr>)) \<and>
   (\<forall>res. reply e (length (sent s)) = Resolved res \<and> status res = 401 \<longrightarrow>
      fetch e (Suc n) s init =
        Some (Inl (HapStatusError INSUFFICIENT_AUTHORIZATION),
          s\<lparr>sent := sent s @ [with_auth (authToken s) init]\<rparr>) \<and>
      authToken (s\<lparr>sent := sent s @ [with_auth (authToken s) init]\<rparr>) = authToken s)"
proof (intro conjI allI impI)
  show "authToken initial = None" by (simp add: initial_def)
next
  assume "reply e (length (sent s)) = Resolved \<lparr>status = 200, json = TokenJson t\<rparr>"
  then show "authorize e (Suc n) s =
        Some (Inr (), s\<lparr>authToken := Some t,
                         sent := sent s @ [loginRequest e (length (sent s))]\<rparr>)"
    by (rule authorize_200)
next
  show "headers (loginRequest e i) = [(''Content-Type'', ''application/x-www-form-urlencoded'')]"
    by (simp add: loginRequest_def)
next
  fix res
  assume "reply e (length (sent s)) = Resolved res \<and> status res = 403 \<and>
      reply e (Suc (length (sent s))) = Resolved \<lparr>status = 200, json = TokenJson t\<rparr>"
  then show "fetch e (Suc (Suc n)) s init =
        fetch e (Suc n)
          (s\<lparr>authToken := Some t,
             sent := sent s @ [with_auth (authToken s) init,
                               loginRequest e (Suc (length (sent s)))]\<rparr>) init"
    by (blast intro: fetch_403_login_ok)
next
  fix res
  assume a: "reply e (length (sent s)) = Resolved res \<and> status res = 403 \<and>
      reply e (Suc (length (sent s))) = Rejected"
  let ?sa = "s\<lparr>sent := sent s @ [with_auth (authToken s) init], authToken := Some []\<rparr>"
  from a have "fetch e (Suc n) (?sa\<lparr>authToken := Some []\<rparr>) (loginRequest e (length (sent ?sa))) =
      Some (Inl (HapStatusError SERVICE_COMMUNICATION_FAILURE),
            ?sa\<lparr>sent := sent ?sa @ [with_auth (Some []) (loginRequest e (length (sent ?sa)))]\<rparr>)"
    by (simp add: Let_def)
  then have "authorize e (Suc n) ?sa =
      Some (Inl (HapStatusError SERVICE_COMMUNICATION_FAILURE),
            ?sa\<lparr>sent := sent ?sa @ [loginRequest e (length (sent ?sa))]\<rparr>)"
    by (simp add: authorize.simps [of e "Suc n"] with_auth_def auth_headers_def del: fetch.simps)
  with a show "fetch e (Suc (Suc n)) s init =
        Some (Inl (HapStatusError SERVICE_COMMUNICATION_FAILURE),
          s\<lparr>authToken := Some [],
            sent := sent s @ [with_auth (authToken s) init,
                              loginRequest e (Suc (length (sent s)))]\<rparr>)"
    by (simp add: fetch_403_unfold [of e s res] del: fetch.simps)
next
  fix res
  assume "reply e (length (sent s)) = Resolved res \<and> status res = 401"
  then show "fetch e (Suc n) s init =
        Some (Inl (HapStatusError INSUFFICIENT_AUTHORIZATION),
          s\<lparr>sent := sent s @ [with_auth (authToken s) init]\<rparr>)"
    by (auto simp: Let_def)
next
  show "authToken (s\<lparr>sent := sent s @ [with_auth (authToken s) init]\<rparr>) = authToken s"
    by simp
qed


theorem authToken_lifecycle_witness:
  "authorize (example_env [Resolved \<lparr>status = 200, json = TokenJson ''t1''\<rparr>]) 1 initial =
     Some (Inr (),
       initial\<lparr>authToken := Some ''t1'',
               sent := sent initial @
                 [loginRequest (example_env [Resolved \<lparr>status = 200, json = TokenJson ''t1''\<rparr>])
                    (length (sent initial))]\<rparr>) \<and>
   fetch (example_env [Resolved \<lparr>status = 403, json = NotJson\<rparr>,
                       Resolved \<lparr>status = 200, json = TokenJson ''t1''\<rparr>,
                       Resolved \<lparr>status = 200, json = OtherJson\<rparr>])
     2 (initial\<lparr>authToken := Some ''old''\<rparr>) (statusRequest (example_env [])) =
     Some (Inr \<lparr>status = 200, json = OtherJson\<rparr>,
       \<lparr>authToken = Some ''t1'', data = Null,
        sent = [with_auth (Some ''old'') (statusRequest (example_env [])),
                loginRequest (example_env []) 1,
                with_auth (Some ''t1'') (statusRequest (example_env []))],
        timeouts = []\<rparr>) \<and>
   fetch (example_env [Resolved \<lparr>status = 403, json = NotJson\<rparr>])
     2 (initial\<lparr>authToken := Some ''old''\<rparr>) (statusRequest (example_env [])) =
     Some (Inl (HapStatusError SERVICE_COMMUNICATION_FAILURE),
       \<lparr>authToken = Some [], data = Null,
        sent = [with_auth (Some ''old'') (statusRequest (example_env [])),
                loginRequest (example_env []) 1],
        timeouts = []\<rparr>) \<and>
   fetch (example_env [Resolved \<lparr>status = 401, json = NotJson\<rparr>])
     1 (initial\<lparr>authToken := Some ''old''\<rparr>) (statusRequest (example_env [])) =
     Some (Inl (HapStatusError INSUFFICIENT_AUTHORIZATION),
       \<lparr>authToken = Some ''old'', data = Null,
        sent = [with_auth (Some ''old'') (statusRequest (example_env []))],
        timeouts = []\<rparr>)"
proof -
  let ?s = "initial\<lparr>authToken := Some ''old''\<rparr>"
  let ?init = "statusRequest (example_env [])"
  let ?ea = "example_env [Resolved \<lparr>status = 200, json = TokenJson ''t1''\<rparr>]"
  let ?eb = "example_env [Resolved \<lparr>status = 403, json = NotJson\<rparr>,
                          Resolved \<lparr>status = 200, json = TokenJson ''t1''\<rparr>,
                          Resolved \<lparr>status = 200, json = OtherJson\<rparr>]"
  let ?ec = "example_env [Resolved \<lparr>status = 403, json = NotJson\<rparr>]"
  let ?ed = "example_env [Resolved \<lparr>status = 401, json = NotJson\<rparr>]"
  have ha: "reply ?ea (length (sent initial)) = Resolved \<lparr>status = 200, json = TokenJson ''t1''\<rparr>"
    by (simp add: run_defs)
  from ha authToken_lifecycle [where e = ?ea and s = initial and t = "''t1''" and n = 0]
  have a: "authorize ?ea (Suc 0) initial =
      Some (Inr (), initial\<lparr>authToken := Some ''t1'',
              sent := sent initial @ [loginRequest ?ea (length (sent initial))]\<rparr>)"
    by blast
  have hb: "reply ?eb (length (sent ?s)) = Resolved \<lparr>status = 403, json = NotJson\<rparr> \<and>
      status \<lparr>status = 403, json = NotJson\<rparr> = 403 \<and>
      reply ?eb (Suc (length (sent ?s))) = Resolved \<lparr>status = 200, json = TokenJson ''t1''\<rparr>"
    by (simp add: run_defs)
  from hb authToken_lifecycle
    [where e = ?eb and s = ?s and t = "''t1''" and n = 0 and init = ?init]
  have "fetch ?eb (Suc (Suc 0)) ?s ?init =
      fetch ?eb (Suc 0)
        (?s\<lparr>authToken := Some ''t1'',
            sent := sent ?s @ [with_auth (authToken ?s) ?init,
                               loginRequest ?eb (Suc (length (sent ?s)))]\<rparr>) ?init"
    by blast
  then have b: "fetch ?eb 2 ?s ?init =
     Some (Inr \<lparr>status = 200, json = OtherJson\<rparr>,
       \<lparr>authToken = Some ''t1'', data = Null,
        sent = [with_auth (Some ''old'') ?init, loginRequest (example_env []) 1,
                with_auth (Some ''t1'') ?init],
        timeouts = []\<rparr>)"
    by (simp add: numeral_2_eq_2 loginRequest_def statusRequest_def run_defs)
  have hc: "reply ?ec (length (sent ?s)) = Resolved \<lparr>status = 403, json = NotJson\<rparr> \<and>
      status \<lparr>status = 403, json = NotJson\<rparr> = 403 \<and>
      reply ?ec (Suc (length (sent ?s))) = Rejected"
    by (simp add: run_defs)
  from hc authToken_lifecycle [where e = ?ec and s = ?s and n = 0 and init = ?init]
  have "fetch ?ec (Suc (Suc 0)) ?s ?init =
      Some (Inl (HapStatusError SERVICE_COMMUNICATION_FAILURE),
        ?s\<lparr>authToken := Some [],
            sent := sent ?s @ [with_auth (authToken ?s) ?init,
                               loginRequest ?ec (Suc (length (sent ?s)))]\<rparr>)"
    by blast
  then have c: "fetch ?ec 2 ?s ?init =
     Some (Inl (HapStatusError SERVICE_COMMUNICATION_FAILURE),
       \<lparr>authToken = Some [], data = Null,
        sent = [with_auth (Some ''old'') ?init, loginRequest (example_env []) 1],
        timeouts = []\<rparr>)"
    by (simp add: numeral_2_eq_2 loginRequest_def run_defs del: fetch.simps)
  have hd: "reply ?ed (length (sent ?s)) = Resolved \<lparr>status = 401, json = NotJson\<rparr> \<and>
      status \<lparr>status = 401, json = NotJson\<rparr> = 401"
    by (simp add: run_defs)
  from hd authToken_lifecycle [where e = ?ed and s = ?s and n = 0 and init = ?init]
  have "fetch ?ed (Suc 0) ?s ?init =
      Some (Inl (HapStatusError INSUFFICIENT_AUTHORIZATION),
        ?s\<lparr>sent := sent ?s @ [with_auth (authToken ?s) ?init]\<rparr>)"
    by blast
  then have d: "fetch ?ed 1 ?s ?init =
     Some (Inl (HapStatusError INSUFFICIENT_AUTHORIZATION),
       \<lparr>authToken = Some ''old'', data = Null,
        sent = [with_auth (Some ''old'') ?init], timeouts = []\<rparr>)"
    by (simp add: initial_def del: fetch.simps)
  from a b c d show ?thesis by (simp del: fetch.simps)
qed

section \<open>The guarded read: claim C4\<close>

text \<open>
  C4, as the claim states it, fails in both directions, since \<open>updateStatus\<close> stores
  the \<open>data\<close> of any body that parses. On a fresh accessory a 200 answer without a
  property \<open>data\<close>, such as \<open>{message: 'ok'}\<close>, is a successful poll that stores
  \<open>undefined\<close>: the read then returns \<open>undefined\<close> and does not fail, although no
  snapshot was ever loaded. And after a snapshot was loaded, a 200 answer
  \<open>{data: null}\<close> stores \<open>null\<close>: the read fails with \<open>RESOURCE_BUSY\<close> again.
\<close>

theorem guardedOnlineData_not_ready_counterexample:
  "updateStatus (example_env [Resolved \<lparr>status = 200, json = Json Undefined\<rparr>]) 1 initial =
     Some (Inr (), \<lparr>authToken = None, data = Undefined,
                     sent = [statusRequest (example_env [])], timeouts = []\<rparr>) \<and>
   guardedOnlineData \<lparr>authToken = None, data = Undefined,
                      sent = [statusRequest (example_env [])], timeouts = []\<rparr> =
     Inr Undefined \<and>
   updateStatus
     (example_env [Resolved \<lparr>status = 200, json = DeviceJson (example_data F)\<rparr>,
                   Resolved \<lparr>status = 200, json = Json Null\<rparr>]) 1 initial =
     Some (Inr (), \<lparr>authToken = None, data = Snapshot (example_data F),
                     sent = [statusRequest (example_env [])], timeouts = []\<rparr>) \<and>
   updateStatus
     (example_env [Resolved \<lparr>status = 200, json = DeviceJson (example_data F)\<rparr>,
                   Resolved \<lparr>status = 200, json = Json Null\<rparr>]) 1
     \<lparr>authToken = None, data = Snapshot (example_data F),
      sent = [statusRequest (example_env [])], timeouts = []\<rparr> =
     Some (Inr (), \<lparr>authToken = None, data = Null,
                     sent = [statusRequest (example_env []), statusRequest (example_env [])],
                     timeouts = []\<rparr>) \<and>
   guardedOnlineData \<lparr>authToken = None, data = Null,
                      sent = [statusRequest (example_env []), statusRequest (example_env [])],
                      timeouts = []\<rparr> =
     Inl (HapStatusError RESOURCE_BUSY)"
  by (simp add: updateStatus_def statusRequest_def guardedOnlineData_def run_defs)

text \<open>
  C4, amended. \<open>guardedOnlineData\<close> fails, with \<open>RESOURCE_BUSY\<close> and with no other
  error, exactly when the held value is \<open>null\<close>, as it is at startup; every other
  held value is returned as it is, a snapshot whatever its \<open>device_status\<close>. A failing
  \<open>updateStatus\<close> leaves the outcome of the read as it was. A successful one stores
  the \<open>data\<close> of the body that parsed, so that afterwards the read fails exactly when
  that \<open>data\<close> is \<open>null\<close>, and otherwise returns it.
\<close>

theorem guardedOnlineData_not_ready_iff_null:
  "(guardedOnlineData s = Inl (HapStatusError RESOURCE_BUSY)) = (data s = Null) \<and>
   (\<forall>err. guardedOnlineData s = Inl err \<longrightarrow> err = HapStatusError RESOURCE_BUSY) \<and>
   (data s \<noteq> Null \<longrightarrow> guardedOnlineData s = Inr (data s)) \<and>
   guardedOnlineData (s\<lparr>data := Snapshot d\<rparr>) = Inr (Snapshot d) \<and>
   guardedOnlineData (s\<lparr>data := Snapshot (d\<lparr>device_status := k\<rparr>)\<rparr>) =
     Inr (Snapshot (d\<lparr>device_status := k\<rparr>)) \<and>
   guardedOnlineData initial = Inl (HapStatusError RESOURCE_BUSY) \<and>
   (\<forall>err. updateStatus e n s = Some (Inl err, s') \<longrightarrow>
      guardedOnlineData s' = guardedOnlineData s) \<and>
   (updateStatus e n s = Some (Inr (), s') \<longrightarrow>
      (\<exists>res sa v. fetch e n s (statusRequest e) = Some (Inr res, sa) \<and> json res = Json v \<and>
         data s' = v \<and>
         (guardedOnlineData s' = Inl (HapStatusError RESOURCE_BUSY)) = (v = Null) \<and>
         (v \<noteq> Null \<longrightarrow> guardedOnlineData s' = Inr v)))"
proof (intro conjI allI impI)
  fix err assume "updateStatus e n s = Some (Inl err, s')"
  then have "data s' = data s" by (rule updateStatus_failure_data)
  then show "guardedOnlineData s' = guardedOnlineData s" by (simp add: guardedOnlineData_def)
next
  assume "updateStatus e n s = Some (Inr (), s')"
  then obtain res sa v where
    "fetch e n s (statusRequest e) = Some (Inr res, sa)" "json res = Json v" "data s' = v"
    by (auto dest!: updateStatus_cases)
  then show "\<exists>res sa v. fetch e n s (statusRequest e) = Some (Inr res, sa) \<and> json res = Json v \<and>
         data s' = v \<and>
         (guardedOnlineData s' = Inl (HapStatusError RESOURCE_BUSY)) = (v = Null) \<and>
         (v \<noteq> Null \<longrightarrow> guardedOnlineData s' = Inr v)"
    by (auto simp: guardedOnlineData_def)
qed (auto simp: guardedOnlineData_def initial_def split: if_splits)

theorem guardedOnlineData_not_ready_iff_null_witness:
  "updateStatus (example_env [Resolved \<lparr>status = 200, json = DeviceJson (example_data F)\<rparr>]) 1
     initial =
     Some (Inr (), \<lparr>authToken = None, data = Snapshot (example_data F),
                     sent = [statusRequest (example_env [])], timeouts = []\<rparr>) \<and>
   guardedOnlineData \<lparr>authToken = None, data = Snapshot (example_data F),
                      sent = [statusRequest (example_env [])], timeouts = []\<rparr> =
     Inr (Snapshot (example_data F)) \<and>
   guardedOnlineData initial = Inl (HapStatusError RESOURCE_BUSY) \<and>
   device_status (example_data F) = 0 \<and>
   updateStatus (example_env []) 1 initial =
     Some (Inl (HapStatusError SERVICE_COMMUNICATION_FAILURE),
           \<lparr>authToken = None, data = Null, sent = [statusRequest (example_env [])],
            timeouts = []\<rparr>) \<and>
   guardedOnlineData \<lparr>authToken = None, data = Null, sent = [statusRequest (example_env [])],
                      timeouts = []\<rparr> = Inl (HapStatusError RESOURCE_BUSY)"
proof -
  let ?e = "example_env [Resolved \<lparr>status = 200, json = DeviceJson (example_data F)\<rparr>]"
  let ?sa = "\<lparr>authToken = None, data = Snapshot (example_data F),
              sent = [statusRequest (example_env [])], timeouts = []\<rparr>"
  let ?sb = "\<lparr>authToken = None, data = Null, sent = [statusRequest (example_env [])],
              timeouts = []\<rparr>"
  have h: "updateStatus ?e 1 initial = Some (Inr (), ?sa)"
    by (simp add: updateStatus_def statusRequest_def run_defs)
  have f: "updateStatus (example_env []) 1 initial =
      Some (Inl (HapStatusError SERVICE_COMMUNICATION_FAILURE), ?sb)"
    by (simp add: updateStatus_def statusRequest_def run_defs)
  have i: "device_status (example_data F) = 0"
    by (simp add: example_data_def)
  have nn: "data ?sa \<noteq> Null" by simp
  note T = guardedOnlineData_not_ready_iff_null
    [where s = ?sa and e = ?e and n = 1]
  from T nn have a: "guardedOnlineData ?sa = Inr (data ?sa)" by blast
  note U = guardedOnlineData_not_ready_iff_null
    [where s = initial and e = "example_env []" and n = 1 and s' = ?sb]
  from U have b: "guardedOnlineData initial = Inl (HapStatusError RESOURCE_BUSY)"
    by blast
  from U f have "guardedOnlineData ?sb = guardedOnlineData initial" by blast
  with a b h f i show ?thesis by simp
qed

section \<open>The snapshot and the poll loop: claims C5 and C6\<close>

text \<open>
  The two writers of the command dispatcher change the field \<open>data\<close> only through
  the \<open>updateStatus\<close> that ends them.
\<close>

lemma updateThermostat_writes:
  assumes u: "updateThermostat e n s tb = Some (out, s')"
  shows "data s' = data s \<or>
         (\<exists>sm. data sm = data s \<and> updateStatus e n sm = Some (out, s'))"
proof -
  let ?req = "thermostatRequest e tb"
  from u obtain o1 sa where f: "fetch e n s ?req = Some (o1, sa)"
    by (cases "fetch e n s ?req") (auto simp: updateThermostat_def)
  from fetch_extends [OF f] have d: "data sa = data s" by (simp add: extends_def)
  show ?thesis
  proof (cases o1)
    case (Inl err)
    with u f have "s' = sa" by (simp add: updateThermostat_def)
    with d show ?thesis by simp
  next
    case (Inr res)
    with u f have "s' = sa \<or> updateStatus e n sa = Some (out, s')"
      by (cases "json res") (simp_all add: updateThermostat_def)
    with d show ?thesis by auto
  qed
qed

lemma updateNightLightSettings_writes:
  assumes u: "updateNightLightSettings e n s settings = Some (out, s')"
  shows "data s' = data s \<or>
         (\<exists>sm. data sm = data s \<and> updateStatus e n sm = Some (out, s'))"
proof (cases "guardedOnlineData s")
  case (Inl err)
  with u show ?thesis by (simp add: updateNightLightSettings_def)
next
  case (Inr held)
  show ?thesis
  proof (cases "nightLightBody held settings")
    case (Inl err)
    with u \<open>guardedOnlineData s = Inr held\<close> show ?thesis
      by (simp add: updateNightLightSettings_def)
  next
    case b: (Inr bd)
    from u Inr b obtain o1 sa where f: "fetch e n s (nightLightPatch e bd) = Some (o1, sa)"
      by (cases "fetch e n s (nightLightPatch e bd)") (auto simp: updateNightLightSettings_def)
    from fetch_extends [OF f] have d: "data sa = data s" by (simp add: extends_def)
    show ?thesis
    proof (cases o1)
      case (Inl err)
      with u Inr b f have "s' = sa" by (simp add: updateNightLightSettings_def)
      with d show ?thesis by simp
    next
      case r: (Inr res)
      with u Inr b f have "updateStatus e n sa = Some (out, s')"
        by (simp add: updateNightLightSettings_def)
      with d show ?thesis by auto
    qed
  qed
qed

text \<open>
  C5. Neither \<open>fetch\<close> nor \<open>authorize\<close> writes the field \<open>data\<close>, and
  \<open>updateThermostat\<close> and \<open>updateNightLightSettings\<close> change it only through the
  \<open>updateStatus\<close> that ends them. A failing \<open>updateStatus\<close> leaves it as it was, and
  so does the \<open>poll\<close> around it; a successful one replaces it, whatever it held, by
  the \<open>data\<close> of the body that the server sent. After a successful poll that installed
  a snapshot and then a failing one, the guarded read still returns that snapshot.
\<close>

theorem snapshot_written_only_by_successful_poll:
  "(fetch e n s init = Some (outa, sa) \<longrightarrow> data sa = data s) \<and>
   (authorize e n s = Some (outb, sb) \<longrightarrow> data sb = data s) \<and>
   (updateThermostat e n s tb = Some (outc, sj) \<longrightarrow>
      data sj = data s \<or>
      (\<exists>sm. data sm = data s \<and> updateStatus e n sm = Some (outc, sj))) \<and>
   (updateNightLightSettings e n s settings = Some (outd, sk) \<longrightarrow>
      data sk = data s \<or>
      (\<exists>sm. data sm = data s \<and> updateStatus e n sm = Some (outd, sk))) \<and>
   (\<forall>err. updateStatus e n s = Some (Inl err, sc) \<longrightarrow>
      data sc = data s \<and> guardedOnlineData sc = guardedOnlineData s \<and>
      (\<forall>sg. poll e n s = Some sg \<longrightarrow> data sg = data s)) \<and>
   (updateStatus e n s = Some (Inr (), sd) \<longrightarrow>
      (\<exists>res sh v. fetch e n s (statusRequest e) = Some (Inr res, sh) \<and>
         json res = Json v \<and> data sd = v)) \<and>
   (\<forall>err snap. updateStatus e n s = Some (Inr (), sd) \<and> data sd = Snapshot snap \<and>
      updateStatus e m sd = Some (Inl err, sf) \<longrightarrow>
      guardedOnlineData sd = Inr (Snapshot snap) \<and>
      guardedOnlineData sf = Inr (Snapshot snap))"
proof (intro conjI allI impI)
  assume "fetch e n s init = Some (outa, sa)"
  then show "data sa = data s" by (auto dest!: fetch_extends simp: extends_def)
next
  assume "authorize e n s = Some (outb, sb)"
  then show "data sb = data s" by (auto dest!: authorize_extends simp: extends_def)
next
  assume "updateThermostat e n s tb = Some (outc, sj)"
  then show "data sj = data s \<or>
      (\<exists>sm. data sm = data s \<and> updateStatus e n sm = Some (outc, sj))"
    by (rule updateThermostat_writes)
next
  assume "updateNightLightSettings e n s settings = Some (outd, sk)"
  then show "data sk = data s \<or>
      (\<exists>sm. data sm = data s \<and> updateStatus e n sm = Some (outd, sk))"
    by (rule updateNightLightSettings_writes)
next
  fix err assume "updateStatus e n s = Some (Inl err, sc)"
  then show "data sc = data s" by (rule updateStatus_failure_data)
next
  fix err assume "updateStatus e n s = Some (Inl err, sc)"
  then have "data sc = data s" by (rule updateStatus_failure_data)
  then show "guardedOnlineData sc = guardedOnlineData s" by (simp add: guardedOnlineData_def)
next
  fix err sg assume u: "updateStatus e n s = Some (Inl err, sc)" and p: "poll e n s = Some sg"
  from u have "data sc = data s" by (rule updateStatus_failure_data)
  with u p show "data sg = data s" by (auto simp: poll_def)
next
  assume "updateStatus e n s = Some (Inr (), sd)"
  then show "\<exists>res sh v. fetch e n s (statusRequest e) = Some (Inr res, sh) \<and>
         json res = Json v \<and> data sd = v"
    by (auto dest!: updateStatus_cases)
next
  fix err snap
  assume a: "updateStatus e n s = Some (Inr (), sd) \<and> data sd = Snapshot snap \<and>
      updateStatus e m sd = Some (Inl err, sf)"
  then show "guardedOnlineData sd = Inr (Snapshot snap)"
    by (simp add: guardedOnlineData_def)
next
  fix err snap
  assume a: "updateStatus e n s = Some (Inr (), sd) \<and> data sd = Snapshot snap \<and>
      updateStatus e m sd = Some (Inl err, sf)"
  then have "data sf = data sd" by (auto dest: updateStatus_failure_data)
  with a show "guardedOnlineData sf = Inr (Snapshot snap)"
    by (simp add: guardedOnlineData_def)
qed

theorem snapshot_written_only_by_successful_poll_witness:
  "updateStatus
     (example_env [Resolved \<lparr>status = 200, json = DeviceJson (example_data F)\<rparr>]) 1 initial =
     Some (Inr (), \<lparr>authToken = None, data = Snapshot (example_data F),
                     sent = [statusRequest (example_env [])], timeouts = []\<rparr>) \<and>
   updateStatus
     (example_env [Resolved \<lparr>status = 200, json = DeviceJson (example_data F)\<rparr>]) 1
     \<lparr>authToken = None, data = Snapshot (example_data F),
      sent = [statusRequest (example_env [])], timeouts = []\<rparr> =
     Some (Inl (HapStatusError SERVICE_COMMUNICATION_FAILURE),
           \<lparr>authToken = None, data = Snapshot (example_data F),
            sent = [statusRequest (example_env []), statusRequest (example_env [])],
            timeouts = []\<rparr>) \<and>
   guardedOnlineData
     \<lparr>authToken = None, data = Snapshot (example_data F),
      sent = [statusRequest (example_env []), statusRequest (example_env [])],
      timeouts = []\<rparr> = Inr (Snapshot (example_data F)) \<and>
   (\<exists>res sh. fetch
        (example_env [Resolved \<lparr>status = 200, json = DeviceJson (example_data F)\<rparr>,
                      Resolved \<lparr>status = 200, json = Json Undefined\<rparr>]) 1
        \<lparr>authToken = None, data = Snapshot (example_data F),
         sent = [statusRequest (example_env [])], timeouts = []\<rparr>
        (statusRequest (example_env [])) = Some (Inr res, sh) \<and>
      updateStatus
        (example_env [Resolved \<lparr>status = 200, json = DeviceJson (example_data F)\<rparr>,
                      Resolved \<lparr>status = 200, json = Json Undefined\<rparr>]) 1
        \<lparr>authToken = None, data = Snapshot (example_data F),
         sent = [statusRequest (example_env [])], timeouts = []\<rparr> =
        Some (Inr (), sh\<lparr>data := Undefined\<rparr>))"
proof -
  let ?e = "example_env [Resolved \<lparr>status = 200, json = DeviceJson (example_data F)\<rparr>]"
  let ?eu = "example_env [Resolved \<lparr>status = 200, json = DeviceJson (example_data F)\<rparr>,
                          Resolved \<lparr>status = 200, json = Json Undefined\<rparr>]"
  let ?sd = "\<lparr>authToken = None, data = Snapshot (example_data F),
              sent = [statusRequest (example_env [])], timeouts = []\<rparr>"
  let ?sf = "\<lparr>authToken = None, data = Snapshot (example_data F),
              sent = [statusRequest (example_env []), statusRequest (example_env [])],
              timeouts = []\<rparr>"
  let ?su = "\<lparr>authToken = None, data = Undefined,
              sent = [statusRequest (example_env []), statusRequest (example_env [])],
              timeouts = []\<rparr>"
  have h1: "updateStatus ?e 1 initial = Some (Inr (), ?sd)"
    by (simp add: updateStatus_def statusRequest_def run_defs)
  have h2: "updateStatus ?e 1 ?sd = Some (Inl (HapStatusError SERVICE_COMMUNICATION_FAILURE), ?sf)"
    by (simp add: updateStatus_def statusRequest_def run_defs)
  have h3: "updateStatus ?eu 1 ?sd = Some (Inr (), ?su)"
    by (simp add: updateStatus_def statusRequest_def run_defs)
  have d: "data ?sd = Snapshot (example_data F)" by simp
  note T = snapshot_written_only_by_successful_poll
    [where e = ?e and n = 1 and m = 1 and s = initial and sd = ?sd and sf = ?sf]
  from T h1 h2 d have a: "guardedOnlineData ?sf = Inr (Snapshot (example_data F))"
    by blast
  note U = snapshot_written_only_by_successful_poll
    [where e = ?eu and n = 1 and s = ?sd and sd = ?su]
  note V = U [THEN conjunct2, THEN conjunct2, THEN conjunct2, THEN conjunct2, THEN conjunct2,
    THEN conjunct1]
  from V h3 obtain res sh v where
    f: "fetch ?eu 1 ?sd (statusRequest ?eu) = Some (Inr res, sh)" and "json res = Json v"
      and "data ?su = v"
    by blast
  have sr: "statusRequest ?eu = statusRequest (example_env [])"
    by (simp add: statusRequest_def example_env_def)
  from f sr have f': "fetch ?eu 1 ?sd (statusRequest (example_env [])) = Some (Inr res, sh)"
    by simp
  then have "sh = \<lparr>authToken = None, data = Snapshot (example_data F),
              sent = [statusRequest (example_env []), statusRequest (example_env [])],
              timeouts = []\<rparr>"
    by (simp add: statusRequest_def run_defs)
  then have "?su = sh\<lparr>data := Undefined\<rparr>" by simp
  with h3 f' have "\<exists>res sh. fetch ?eu 1 ?sd (statusRequest (example_env [])) = Some (Inr res, sh) \<and>
      updateStatus ?eu 1 ?sd = Some (Inr (), sh\<lparr>data := Undefined\<rparr>)"
    by (simp del: fetch.simps)
  with a h1 h2 show ?thesis by blast
qed

lemma fetch_no_403:
  assumes "\<forall>i res. reply e i = Resolved res \<longrightarrow> status res \<noteq> 403"
  shows "\<exists>out. fetch e (Suc n) s init =
           Some (out, s\<lparr>sent := sent s @ [with_auth (authToken s) init]\<rparr>)"
proof (cases "reply e (length (sent s))")
  case Rejected
  then show ?thesis by (simp add: Let_def)
next
  case (Resolved res)
  with assms have "status res \<noteq> 403" by blast
  with Resolved show ?thesis by (simp add: Let_def)
qed

lemma updateStatus_no_403:
  assumes "\<forall>i res. reply e i = Resolved res \<longrightarrow> status res \<noteq> 403"
  shows "\<exists>out s1. updateStatus e (Suc n) s = Some (out, s1) \<and>
           length (sent s1) = Suc (length (sent s)) \<and> timeouts s1 = timeouts s"
proof -
  from fetch_no_403 [OF assms] obtain o1 where
    f: "fetch e (Suc n) s (statusRequest e) =
          Some (o1, s\<lparr>sent := sent s @ [with_auth (authToken s) (statusRequest e)]\<rparr>)"
    by blast
  show ?thesis
  proof (cases o1)
    case (Inl err)
    with f show ?thesis by (simp add: updateStatus_def del: fetch.simps)
  next
    case (Inr res)
    with f show ?thesis
      by (cases "json res") (simp_all add: updateStatus_def del: fetch.simps)
  qed
qed

lemma poll_timeouts:
  "poll e n s = Some s' \<Longrightarrow> timeouts s' = timeouts s @ [10000]"
  by (auto simp: poll_def split: option.splits dest!: updateStatus_extends_sent)

lemma poll_cycles_timeouts:
  "poll_cycles e n k s = Some s' \<Longrightarrow> timeouts s' = timeouts s @ replicate k 10000"
proof (induction k arbitrary: s)
  case 0
  then show ?case by simp
next
  case (Suc k)
  from Suc.prems obtain s1 where p: "poll e n s = Some s1" and c: "poll_cycles e n k s1 = Some s'"
    by (auto split: option.splits)
  from c have "timeouts s' = timeouts s1 @ replicate k 10000" by (rule Suc.IH)
  with poll_timeouts [OF p] show ?case by (simp add: replicate_append_same)
qed

lemma poll_cycles_no_403:
  assumes "\<forall>i res. reply e i = Resolved res \<longrightarrow> status res \<noteq> 403"
  shows "\<exists>s'. poll_cycles e (Suc n) k s = Some s' \<and> length (sent s') = length (sent s) + k"
proof (induction k arbitrary: s)
  case 0
  show ?case by simp
next
  case (Suc k)
  from updateStatus_no_403 [OF assms] obtain out s1 where
    u: "updateStatus e (Suc n) s = Some (out, s1)" and l: "length (sent s1) = Suc (length (sent s))"
    by blast
  let ?s2 = "s1\<lparr>timeouts := timeouts s1 @ [10 * 1000]\<rparr>"
  from u have p: "poll e (Suc n) s = Some ?s2" by (simp add: poll_def)
  from Suc.IH [of ?s2] obtain s' where
    "poll_cycles e (Suc n) k ?s2 = Some s'" "length (sent s') = length (sent ?s2) + k"
    by blast
  with p l show ?case by simp
qed


text \<open>
  C6, as the claim states it, fails. A cycle can fail after a retry: the status
  request is answered 403, the login succeeds, and the retried request is answered
  500. The cycle fails with \<open>SERVICE_COMMUNICATION_FAILURE\<close> and has sent the status
  request twice.
\<close>

theorem poll_failed_cycle_retry_counterexample:
  "updateStatus
     (example_env [Resolved \<lparr>status = 403, json = NotJson\<rparr>,
                   Resolved \<lparr>status = 200, json = TokenJson ''t1''\<rparr>,
                   Resolved \<lparr>status = 500, json = NotJson\<rparr>]) 2 initial =
     Some (Inl (HapStatusError SERVICE_COMMUNICATION_FAILURE),
       \<lparr>authToken = Some ''t1'', data = Null,
        sent = [statusRequest (example_env []),
                loginRequest (example_env []) 1,
                with_auth (Some ''t1'') (statusRequest (example_env []))],
        timeouts = []\<rparr>) \<and>
   poll
     (example_env [Resolved \<lparr>status = 403, json = NotJson\<rparr>,
                   Resolved \<lparr>status = 200, json = TokenJson ''t1''\<rparr>,
                   Resolved \<lparr>status = 500, json = NotJson\<rparr>]) 2 initial =
     Some \<lparr>authToken = Some ''t1'', data = Null,
           sent = [statusRequest (example_env []),
                   loginRequest (example_env []) 1,
                   with_auth (Some ''t1'') (statusRequest (example_env []))],
           timeouts = [10000]\<rparr>"
  by (simp add: poll_def updateStatus_def authorize.simps statusRequest_def loginRequest_def
      run_defs numeral_2_eq_2)

text \<open>
  C6, amended. Whenever \<open>updateStatus\<close> returns, with success or with any failure,
  \<open>poll\<close> sets exactly one timer of 10000 ms for the next \<open>poll\<close>, with no backoff, and
  does not call \<open>updateStatus\<close> again; so \<open>k\<close> completed cycles leave \<open>k\<close> timers of
  10000 ms. When the server never answers 403, every cycle completes, with exactly one
  request, however many of the cycles fail. But \<open>poll\<close> returns only if \<open>updateStatus\<close>
  does: against a server that answers every request with 403 the first cycle never
  completes, whatever the fuel, and no timer is ever set.
\<close>

theorem poll_reschedules_when_cycle_completes:
  "(updateStatus e n s = Some (out, sa) \<longrightarrow>
      poll e n s = Some (sa\<lparr>timeouts := timeouts s @ [10000]\<rparr>)) \<and>
   (updateStatus e n s = None \<longrightarrow> poll e n s = None) \<and>
   (poll_cycles e n k s = Some sb \<longrightarrow> timeouts sb = timeouts s @ replicate k 10000) \<and>
   ((\<forall>i res. reply e i = Resolved res \<longrightarrow> status res \<noteq> 403) \<longrightarrow>
      (\<exists>sc. poll_cycles e (Suc n) k s = Some sc \<and>
         length (sent sc) = length (sent s) + k \<and>
         timeouts sc = timeouts s @ replicate k 10000)) \<and>
   ((\<forall>i. \<exists>r0. reply e i = Resolved r0 \<and> status r0 = 403) \<longrightarrow>
      updateStatus e n s = None \<and> poll e n s = None \<and> poll_cycles e n (Suc k) s = None)"
proof (intro conjI impI)
  assume u: "updateStatus e n s = Some (out, sa)"
  then have "timeouts sa = timeouts s" by (auto dest: updateStatus_extends_sent)
  with u show "poll e n s = Some (sa\<lparr>timeouts := timeouts s @ [10000]\<rparr>)"
    by (simp add: poll_def)
next
  assume "updateStatus e n s = None"
  then show "poll e n s = None" by (simp add: poll_def)
next
  assume "poll_cycles e n k s = Some sb"
  then show "timeouts sb = timeouts s @ replicate k 10000" by (rule poll_cycles_timeouts)
next
  assume "\<forall>i res. reply e i = Resolved res \<longrightarrow> status res \<noteq> 403"
  then obtain sc where c: "poll_cycles e (Suc n) k s = Some sc"
    and l: "length (sent sc) = length (sent s) + k"
    using poll_cycles_no_403 by blast
  from c have "timeouts sc = timeouts s @ replicate k 10000" by (rule poll_cycles_timeouts)
  with c l show "\<exists>sc. poll_cycles e (Suc n) k s = Some sc \<and>
         length (sent sc) = length (sent s) + k \<and>
         timeouts sc = timeouts s @ replicate k 10000" by blast
next
  assume a: "\<forall>i. \<exists>r0. reply e i = Resolved r0 \<and> status r0 = 403"
  then have "fetch e n s (statusRequest e) = None" by (simp add: always_403_never_returns)
  then show u: "updateStatus e n s = None" by (simp add: updateStatus_def)
  then show p: "poll e n s = None" by (simp add: poll_def)
  then show "poll_cycles e n (Suc k) s = None" by simp
qed

theorem poll_reschedules_when_cycle_completes_witness:
  "\<not> (\<exists>i res. reply (example_env [Resolved \<lparr>status = 500, json = NotJson\<rparr>,
                                    Resolved \<lparr>status = 200, json = DeviceJson (example_data F)\<rparr>]) i
                  = Resolved res \<and> status res = 403) \<and>
   (\<exists>sc. poll_cycles (example_env [Resolved \<lparr>status = 500, json = NotJson\<rparr>,
                                    Resolved \<lparr>status = 200, json = DeviceJson (example_data F)\<rparr>])
            1 2 initial = Some sc \<and>
         length (sent sc) = 2 \<and> timeouts sc = [10000, 10000]) \<and>
   updateStatus always_403 7 initial = None \<and>
   poll always_403 7 initial = None \<and>
   poll_cycles always_403 7 1 initial = None"
proof -
  let ?e = "example_env [Resolved \<lparr>status = 500, json = NotJson\<rparr>,
                         Resolved \<lparr>status = 200, json = DeviceJson (example_data F)\<rparr>]"
  have h: "\<forall>i res. reply ?e i = Resolved res \<longrightarrow> status res \<noteq> 403"
    by (auto simp: example_env_def script_def nth_Cons' split: if_splits)
  from h poll_reschedules_when_cycle_completes [where e = ?e and n = 0 and k = 2 and s = initial]
  have "\<exists>sc. poll_cycles ?e (Suc 0) 2 initial = Some sc \<and>
         length (sent sc) = length (sent initial) + 2 \<and>
         timeouts sc = timeouts initial @ replicate 2 10000"
    by blast
  then have a: "\<exists>sc. poll_cycles ?e 1 2 initial = Some sc \<and>
         length (sent sc) = 2 \<and> timeouts sc = [10000, 10000]"
    by (simp add: initial_def numeral_2_eq_2)
  have h3: "\<forall>i. \<exists>r0. reply always_403 i = Resolved r0 \<and> status r0 = 403"
    by (simp add: always_403_def)
  from h3 poll_reschedules_when_cycle_completes
    [where e = always_403 and n = 7 and k = 0 and s = initial]
  have "updateStatus always_403 7 initial = None \<and> poll always_403 7 initial = None \<and>
        poll_cycles always_403 7 (Suc 0) initial = None"
    by blast
  then have b: "updateStatus always_403 7 initial = None \<and> poll always_403 7 initial = None \<and>
        poll_cycles always_403 7 1 initial = None"
    by (simp del: poll_cycles.simps)
  from h a b show ?thesis by blast
qed

section \<open>The command dispatcher: claims C7, C10 and C2\<close>

lemma updateNightLightSettings_sent:
  assumes d: "data s = Snapshot d"
    and u: "updateNightLightSettings e n s settings = Some (out, s')"
  shows "\<exists>rest. sent s' = sent s @
           with_auth (authToken s)
             (nightLightRequest e (spread (night_light_setting d) settings)) # rest"
proof -
  let ?req = "nightLightRequest e (spread (night_light_setting d) settings)"
  from d have g: "guardedOnlineData s = Inr (Snapshot d)"
    by (simp add: guardedOnlineData_def)
  have b: "nightLightBody (Snapshot d) settings =
      Inr (NightLightJson (spread (night_light_setting d) settings))"
    by (simp add: nightLightBody_def)
  from u g b obtain o1 sa where f: "fetch e n s ?req = Some (o1, sa)"
    by (cases "fetch e n s ?req")
      (auto simp: updateNightLightSettings_def nightLightRequest_def)
  from fetch_sent_first [OF f] obtain rest1 where
    r1: "sent sa = sent s @ with_auth (authToken s) ?req # rest1" by blast
  show ?thesis
  proof (cases o1)
    case (Inl err)
    with u g b f have "s' = sa"
      by (simp add: updateNightLightSettings_def nightLightRequest_def)
    with r1 show ?thesis by simp
  next
    case (Inr res)
    with u g b f have "updateStatus e n sa = Some (out, s')"
      by (simp add: updateNightLightSettings_def nightLightRequest_def)
    then obtain rest2 where "sent s' = sent sa @ rest2"
      by (blast dest: updateStatus_extends_sent)
    with r1 show ?thesis by simp
  qed
qed

lemma updateThermostat_sent:
  assumes u: "updateThermostat e n s tb = Some (out, s')"
  shows "\<exists>rest. sent s' = sent s @ with_auth (authToken s) (thermostatRequest e tb) # rest"
proof -
  let ?req = "thermostatRequest e tb"
  from u obtain o1 sa where f: "fetch e n s ?req = Some (o1, sa)"
    by (cases "fetch e n s ?req") (auto simp: updateThermostat_def)
  from fetch_sent_first [OF f] obtain rest1 where
    r1: "sent sa = sent s @ with_auth (authToken s) ?req # rest1" by blast
  show ?thesis
  proof (cases o1)
    case (Inl err)
    with u f have "s' = sa" by (simp add: updateThermostat_def)
    with r1 show ?thesis by simp
  next
    case (Inr res)
    with u f have "s' = sa \<or> updateStatus e n sa = Some (out, s')"
      by (cases "json res") (simp_all add: updateThermostat_def)
    then have "\<exists>rest2. sent s' = sent sa @ rest2"
      by (auto dest: updateStatus_extends_sent)
    with r1 show ?thesis by auto
  qed
qed

text \<open>
  C7. With a snapshot held, \<open>updateNightLightSettings\<close> first sends a PATCH to the
  night-light endpoint whose body is the whole night-light object of the snapshot with
  the supplied properties written over it; when that request is answered with status
  200 the call continues as \<open>updateStatus\<close>, the immediate refresh. In the scenario,
  a brightness of 50 over \<open>{10, false, true, false, {1, 2, 3}}\<close> gives
  \<open>{50, false, true, false, {1, 2, 3}}\<close>.
\<close>

theorem updateNightLightSettings_merges_and_refreshes:
  "(data s = Snapshot d \<and> updateNightLightSettings e n s settings = Some (out, s') \<longrightarrow>
      (\<exists>rest. sent s' = sent s @
         with_auth (authToken s)
           (nightLightRequest e (spread (night_light_setting d) settings)) # rest)) \<and>
   (\<forall>res. data s = Snapshot d \<and> reply e (length (sent s)) = Resolved res \<and> status res = 200 \<longrightarrow>
      updateNightLightSettings e (Suc n) s settings =
        updateStatus e (Suc n)
          (s\<lparr>sent := sent s @
             [with_auth (authToken s)
                (nightLightRequest e (spread (night_light_setting d) settings))]\<rparr>)) \<and>
   http_method (nightLightRequest e nl) = ''PATCH'' \<and>
   body (with_auth tok (nightLightRequest e nl)) = NightLightJson nl \<and>
   spread \<lparr>brightness = 10, auto = False, on = True, off = False,
           color = \<lparr>r = 1, g = 2, b = 3\<rparr>\<rparr>
     \<lparr>p_brightness = Some 50, p_auto = None, p_on = None, p_off = None, p_color = None\<rparr> =
     \<lparr>brightness = 50, auto = False, on = True, off = False,
      color = \<lparr>r = 1, g = 2, b = 3\<rparr>\<rparr> \<and>
   spread base \<lparr>p_brightness = Some v1, p_auto = Some v2, p_on = Some v3, p_off = Some v4,
                p_color = Some v5\<rparr> =
     \<lparr>brightness = v1, auto = v2, on = v3, off = v4, color = v5\<rparr> \<and>
   spread base \<lparr>p_brightness = None, p_auto = None, p_on = None, p_off = None,
                p_color = None\<rparr> = base"
proof (intro conjI allI impI)
  assume "data s = Snapshot d \<and> updateNightLightSettings e n s settings = Some (out, s')"
  then show "\<exists>rest. sent s' = sent s @
         with_auth (authToken s)
           (nightLightRequest e (spread (night_light_setting d) settings)) # rest"
    by (blast dest: updateNightLightSettings_sent)
next
  fix res
  assume a: "data s = Snapshot d \<and> reply e (length (sent s)) = Resolved res \<and> status res = 200"
  then have "fetch e (Suc n) s (nightLightRequest e (spread (night_light_setting d) settings)) =
     Some (Inr res, s\<lparr>sent := sent s @ [with_auth (authToken s)
        (nightLightRequest e (spread (night_light_setting d) settings))]\<rparr>)"
    by (blast intro: fetch_200)
  with a show "updateNightLightSettings e (Suc n) s settings =
        updateStatus e (Suc n)
          (s\<lparr>sent := sent s @
             [with_auth (authToken s)
                (nightLightRequest e (spread (night_light_setting d) settings))]\<rparr>)"
    by (simp add: updateNightLightSettings_def guardedOnlineData_def nightLightBody_def
        nightLightRequest_def del: fetch.simps)
qed (simp_all add: nightLightRequest_def nightLightPatch_def with_auth_def spread_def)


theorem updateNightLightSettings_merges_and_refreshes_witness:
  "data (initial\<lparr>data := Snapshot (example_data F)\<rparr>) = Snapshot (example_data F) \<and>
   updateNightLightSettings
     (example_env [Resolved \<lparr>status = 200, json = OtherJson\<rparr>,
                   Resolved \<lparr>status = 200, json = DeviceJson (example_data C)\<rparr>])
     1 (initial\<lparr>data := Snapshot (example_data F)\<rparr>)
     \<lparr>p_brightness = Some 50, p_auto = None, p_on = None, p_off = None, p_color = None\<rparr> =
     Some (Inr (),
       \<lparr>authToken = None, data = Snapshot (example_data C),
        sent = [nightLightRequest (example_env [])
                  \<lparr>brightness = 50, auto = False, on = True, off = False,
                   color = \<lparr>r = 1, g = 2, b = 3\<rparr>\<rparr>,
                statusRequest (example_env [])],
        timeouts = []\<rparr>) \<and>
   (\<exists>rest.
      [nightLightRequest (example_env [])
         \<lparr>brightness = 50, auto = False, on = True, off = False,
          color = \<lparr>r = 1, g = 2, b = 3\<rparr>\<rparr>,
       statusRequest (example_env [])] =
      nightLightRequest (example_env [])
        (spread (night_light_setting (example_data F))
           \<lparr>p_brightness = Some 50, p_auto = None, p_on = None, p_off = None,
            p_color = None\<rparr>) # rest)"
proof -
  let ?e = "example_env [Resolved \<lparr>status = 200, json = OtherJson\<rparr>,
                         Resolved \<lparr>status = 200, json = DeviceJson (example_data C)\<rparr>]"
  let ?s = "initial\<lparr>data := Snapshot (example_data F)\<rparr>"
  let ?p = "\<lparr>p_brightness = Some 50, p_auto = None, p_on = None, p_off = None,
             p_color = None\<rparr>"
  let ?s' = "\<lparr>authToken = None, data = Snapshot (example_data C),
        sent = [nightLightRequest (example_env [])
                  \<lparr>brightness = 50, auto = False, on = True, off = False,
                   color = \<lparr>r = 1, g = 2, b = 3\<rparr>\<rparr>,
                statusRequest (example_env [])],
        timeouts = []\<rparr>"
  have d: "data ?s = Snapshot (example_data F)" by simp
  have h: "updateNightLightSettings ?e 1 ?s ?p = Some (Inr (), ?s')"
    by (simp add: updateNightLightSettings_def guardedOnlineData_def updateStatus_def
        statusRequest_def nightLightRequest_def nightLightPatch_def nightLightBody_def
        spread_def example_data_def run_defs)
  from d h updateNightLightSettings_merges_and_refreshes
    [where e = ?e and n = 1 and s = ?s and d = "example_data F" and settings = ?p
       and out = "Inr ()" and s' = ?s']
  have "\<exists>rest. sent ?s' = sent ?s @ with_auth (authToken ?s)
          (nightLightRequest ?e (spread (night_light_setting (example_data F)) ?p)) # rest"
    by blast
  then have "\<exists>rest. sent ?s' =
      nightLightRequest (example_env []) (spread (night_light_setting (example_data F)) ?p) # rest"
    by (simp add: nightLightRequest_def nightLightPatch_def run_defs)
  with d h show ?thesis by simp
qed

text \<open>
  C10. The getter of \<open>On\<close> returns the negation of the \<open>off\<close> flag of the snapshot,
  whatever its \<open>on\<close> and \<open>auto\<close> flags are. The setter with value \<open>v\<close> hands
  \<open>{on: v, off: !v, auto: false}\<close> to \<open>updateNightLightSettings\<close>, so that the body
  it sends has these three flags and the brightness and colour of the snapshot.
\<close>

theorem night_light_On_asymmetric:
  "On_onGet (s\<lparr>data := Snapshot d\<rparr>) = Inr (\<not> off (night_light_setting d)) \<and>
   On_onGet (s\<lparr>data := Snapshot (d\<lparr>night_light_setting :=
                (night_light_setting d)\<lparr>on := x, auto := y\<rparr>\<rparr>)\<rparr>) =
     On_onGet (s\<lparr>data := Snapshot d\<rparr>) \<and>
   On_onSet e n s v =
     updateNightLightSettings e n s
       \<lparr>p_brightness = None, p_auto = Some False, p_on = Some v, p_off = Some (\<not> v),
        p_color = None\<rparr> \<and>
   (data s = Snapshot d \<and> On_onSet e n s v = Some (out, s') \<longrightarrow>
      (\<exists>rest. sent s' = sent s @
         with_auth (authToken s)
           (nightLightRequest e
              \<lparr>brightness = brightness (night_light_setting d), auto = False, on = v,
               off = \<not> v, color = color (night_light_setting d)\<rparr>) # rest))"
proof (intro conjI impI)
  assume a: "data s = Snapshot d \<and> On_onSet e n s v = Some (out, s')"
  let ?p = "\<lparr>p_brightness = None, p_auto = Some False, p_on = Some v, p_off = Some (\<not> v),
             p_color = None\<rparr>"
  from a have "updateNightLightSettings e n s ?p = Some (out, s')"
    by (simp add: On_onSet_def)
  with a have "\<exists>rest. sent s' = sent s @
      with_auth (authToken s) (nightLightRequest e (spread (night_light_setting d) ?p)) # rest"
    by (blast dest: updateNightLightSettings_sent)
  then show "\<exists>rest. sent s' = sent s @
         with_auth (authToken s)
           (nightLightRequest e
              \<lparr>brightness = brightness (night_light_setting d), auto = False, on = v,
               off = \<not> v, color = color (night_light_setting d)\<rparr>) # rest"
    by (simp add: spread_def)
qed (simp_all add: On_onGet_def On_onSet_def guardedOnlineData_def)


theorem night_light_On_asymmetric_witness:
  "data (initial\<lparr>data := Snapshot ((example_data F)\<lparr>night_light_setting :=
        \<lparr>brightness = 10, auto = True, on = True, off = False,
         color = \<lparr>r = 1, g = 2, b = 3\<rparr>\<rparr>\<rparr>)\<rparr>) =
     Snapshot ((example_data F)\<lparr>night_light_setting :=
        \<lparr>brightness = 10, auto = True, on = True, off = False,
         color = \<lparr>r = 1, g = 2, b = 3\<rparr>\<rparr>\<rparr>) \<and>
   On_onSet
     (example_env [Resolved \<lparr>status = 200, json = OtherJson\<rparr>,
                   Resolved \<lparr>status = 200, json = DeviceJson (example_data C)\<rparr>])
     1 (initial\<lparr>data := Snapshot ((example_data F)\<lparr>night_light_setting :=
        \<lparr>brightness = 10, auto = True, on = True, off = False,
         color = \<lparr>r = 1, g = 2, b = 3\<rparr>\<rparr>\<rparr>)\<rparr>) False =
     Some (Inr (),
       \<lparr>authToken = None, data = Snapshot (example_data C),
        sent = [nightLightRequest (example_env [])
                  \<lparr>brightness = 10, auto = False, on = False, off = True,
                   color = \<lparr>r = 1, g = 2, b = 3\<rparr>\<rparr>,
                statusRequest (example_env [])],
        timeouts = []\<rparr>) \<and>
   (\<exists>rest.
      [nightLightRequest (example_env [])
         \<lparr>brightness = 10, auto = False, on = False, off = True,
          color = \<lparr>r = 1, g = 2, b = 3\<rparr>\<rparr>,
       statusRequest (example_env [])] =
      nightLightRequest (example_env [])
        \<lparr>brightness = 10, auto = False, on = False, off = \<not> False,
         color = \<lparr>r = 1, g = 2, b = 3\<rparr>\<rparr> # rest)"
proof -
  let ?e = "example_env [Resolved \<lparr>status = 200, json = OtherJson\<rparr>,
                         Resolved \<lparr>status = 200, json = DeviceJson (example_data C)\<rparr>]"
  let ?d = "(example_data F)\<lparr>night_light_setting :=
        \<lparr>brightness = 10, auto = True, on = True, off = False,
         color = \<lparr>r = 1, g = 2, b = 3\<rparr>\<rparr>\<rparr>"
  let ?s = "initial\<lparr>data := Snapshot ?d\<rparr>"
  let ?s' = "\<lparr>authToken = None, data = Snapshot (example_data C),
        sent = [nightLightRequest (example_env [])
                  \<lparr>brightness = 10, auto = False, on = False, off = True,
                   color = \<lparr>r = 1, g = 2, b = 3\<rparr>\<rparr>,
                statusRequest (example_env [])],
        timeouts = []\<rparr>"
  have d: "data ?s = Snapshot ?d" by simp
  have h: "On_onSet ?e 1 ?s False = Some (Inr (), ?s')"
    by (simp add: On_onSet_def updateNightLightSettings_def guardedOnlineData_def
        updateStatus_def statusRequest_def nightLightRequest_def nightLightPatch_def
        nightLightBody_def spread_def example_data_def run_defs)
  from d h night_light_On_asymmetric
    [where e = ?e and n = 1 and s = ?s and d = ?d and v = False
       and out = "Inr ()" and s' = ?s']
  have "\<exists>rest. sent ?s' = sent ?s @ with_auth (authToken ?s)
          (nightLightRequest ?e
             \<lparr>brightness = brightness (night_light_setting ?d), auto = False, on = False,
              off = \<not> False, color = color (night_light_setting ?d)\<rparr>) # rest"
    by blast
  then have "\<exists>rest. sent ?s' =
      nightLightRequest (example_env [])
        \<lparr>brightness = 10, auto = False, on = False, off = \<not> False,
         color = \<lparr>r = 1, g = 2, b = 3\<rparr>\<rparr> # rest"
    by (simp add: nightLightRequest_def nightLightPatch_def run_defs)
  with d h show ?thesis by simp
qed

text \<open>
  C2, as the claim states it, fails: with a snapshot in unit C the setter sends the
  value unchanged. For the value 21 the body is \<open>{temperature: 21}\<close>, and not the
  \<open>{temperature: 69.8}\<close> of the claim.
\<close>

theorem TargetTemperature_onSet_unit_C_counterexample:
  "TargetTemperature_onSet
     (example_env [Resolved \<lparr>status = 200, json = OtherJson\<rparr>,
                   Resolved \<lparr>status = 200, json = DeviceJson (example_data C)\<rparr>])
     1 (initial\<lparr>data := Snapshot (example_data C)\<rparr>) 21 =
     Some (Inr (),
       \<lparr>authToken = None, data = Snapshot (example_data C),
        sent = [thermostatRequest (example_env []) (Temperature 21),
                statusRequest (example_env [])],
        timeouts = []\<rparr>) \<and>
   temperature_unit (example_data C) = C \<and>
   body (thermostatRequest (example_env []) (Temperature 21)) \<noteq>
     ThermostatJson (Temperature 69.8)"
  by (simp add: TargetTemperature_onSet_def temperatureJson_def updateThermostat_def
      guardedOnlineData_def updateStatus_def statusRequest_def thermostatRequest_def
      example_data_def run_defs)

text \<open>
  The double that \<open>cToF\<close> computes for 21 is the one that the literal
  \<open>69.80000000000001\<close> denotes; it is not the double of \<open>69.8\<close>, the exact value of
  \<open>21 * 9 / 5 + 32\<close>.
\<close>

lemma cToF_double_21: "cToF_double 21 = Some (4911738343600948 / 2 ^ 46)"
  by (simp add: cToF_double_def fl_def binade_def rne_def ilog2.simps Let_def)

lemma fl_69_80000000000001: "fl 69.80000000000001 = Some (4911738343600948 / 2 ^ 46)"
  by (simp add: fl_def binade_def rne_def ilog2.simps Let_def)

lemma fl_69_8: "fl 69.8 = Some (4911738343600947 / 2 ^ 46)"
  by (simp add: fl_def binade_def rne_def ilog2.simps Let_def)

text \<open>
  C2, amended. \<open>updateThermostat\<close> sends the body it is given, with no conversion. The
  setter of the target temperature receives a Celsius value: when the snapshot is in
  unit F it hands over the value converted to Fahrenheit in double arithmetic, and
  when the snapshot is in unit C it hands the value over unchanged. For the value 21
  and unit F the number sent is the double \<open>69.80000000000001\<close>, one step above the
  double of \<open>69.8\<close>.
\<close>

theorem TargetTemperature_onSet_converts_for_unit_F:
  "(data s = Snapshot d \<longrightarrow>
      TargetTemperature_onSet e n s v =
        updateThermostat e n s
          (temperatureJson (if temperature_unit d = F then cToF_double v else Some v))) \<and>
   (updateThermostat e n s tb = Some (out, s') \<longrightarrow>
      (\<exists>rest. sent s' = sent s @ with_auth (authToken s) (thermostatRequest e tb) # rest)) \<and>
   body (with_auth tok (thermostatRequest e tb)) = ThermostatJson tb \<and>
   http_method (thermostatRequest e tb) = ''PATCH'' \<and>
   temperatureJson (Some v) = Temperature v \<and>
   temperatureJson (cToF_double 21) = Temperature (4911738343600948 / 2 ^ 46) \<and>
   cToF_double 21 = fl 69.80000000000001 \<and>
   cToF_double 21 \<noteq> fl 69.8 \<and>
   cToF_double 21 \<noteq> Some 69.8"
proof (intro conjI impI)
  assume "updateThermostat e n s tb = Some (out, s')"
  then show "\<exists>rest. sent s' = sent s @ with_auth (authToken s) (thermostatRequest e tb) # rest"
    by (rule updateThermostat_sent)
next
  show "cToF_double 21 = fl 69.80000000000001"
    by (simp only: cToF_double_21 fl_69_80000000000001)
next
  show "cToF_double 21 \<noteq> fl 69.8"
    unfolding cToF_double_21 fl_69_8 by simp
next
  show "cToF_double 21 \<noteq> Some 69.8"
    unfolding cToF_double_21 by simp
next
  show "temperatureJson (cToF_double 21) = Temperature (4911738343600948 / 2 ^ 46)"
    by (simp only: cToF_double_21 temperatureJson_def option.case)
qed (simp_all add: TargetTemperature_onSet_def guardedOnlineData_def thermostatRequest_def
      with_auth_def temperatureJson_def)

theorem TargetTemperature_onSet_converts_for_unit_F_witness:
  "data (initial\<lparr>data := Snapshot (example_data F)\<rparr>) = Snapshot (example_data F) \<and>
   temperature_unit (example_data F) = F \<and>
   TargetTemperature_onSet
     (example_env [Resolved \<lparr>status = 200, json = OtherJson\<rparr>,
                   Resolved \<lparr>status = 200, json = DeviceJson (example_data F)\<rparr>])
     1 (initial\<lparr>data := Snapshot (example_data F)\<rparr>) 21 =
     updateThermostat
       (example_env [Resolved \<lparr>status = 200, json = OtherJson\<rparr>,
                     Resolved \<lparr>status = 200, json = DeviceJson (example_data F)\<rparr>])
       1 (initial\<lparr>data := Snapshot (example_data F)\<rparr>)
       (Temperature (4911738343600948 / 2 ^ 46)) \<and>
   updateThermostat
     (example_env [Resolved \<lparr>status = 200, json = OtherJson\<rparr>,
                   Resolved \<lparr>status = 200, json = DeviceJson (example_data F)\<rparr>])
     1 (initial\<lparr>data := Snapshot (example_data F)\<rparr>)
     (Temperature (4911738343600948 / 2 ^ 46)) =
     Some (Inr (),
       \<lparr>authToken = None, data = Snapshot (example_data F),
        sent = [thermostatRequest (example_env []) (Temperature (4911738343600948 / 2 ^ 46)),
                statusRequest (example_env [])],
        timeouts = []\<rparr>)"
proof -
  let ?e = "example_env [Resolved \<lparr>status = 200, json = OtherJson\<rparr>,
                         Resolved \<lparr>status = 200, json = DeviceJson (example_data F)\<rparr>]"
  let ?s = "initial\<lparr>data := Snapshot (example_data F)\<rparr>"
  let ?t = "Temperature (4911738343600948 / 2 ^ 46)"
  have d: "data ?s = Snapshot (example_data F)" by simp
  have u: "temperature_unit (example_data F) = F" by (simp add: example_data_def)
  have h: "updateThermostat ?e 1 ?s ?t =
     Some (Inr (),
       \<lparr>authToken = None, data = Snapshot (example_data F),
        sent = [thermostatRequest (example_env []) ?t, statusRequest (example_env [])],
        timeouts = []\<rparr>)"
    by (simp add: updateThermostat_def updateStatus_def statusRequest_def
        thermostatRequest_def run_defs)
  note T = TargetTemperature_onSet_converts_for_unit_F
    [where e = ?e and n = 1 and s = ?s and d = "example_data F" and v = 21]
  from T d have "TargetTemperature_onSet ?e 1 ?s 21 =
      updateThermostat ?e 1 ?s
        (temperatureJson (if temperature_unit (example_data F) = F then cToF_double 21
                          else Some 21))"
    by blast
  moreover from T have "temperatureJson (cToF_double 21) = ?t" by blast
  ultimately have "TargetTemperature_onSet ?e 1 ?s 21 = updateThermostat ?e 1 ?s ?t"
    using u by simp
  with d u h show ?thesis by blast
qed

end
